theory Spec2Isabelle
  imports
    Complex_Main
    "HOL-Library.AList"
    "HOL-Library.Multiset"
    "HOL-Library.Product_Lexorder"
    "HOL-Library.Sublist"
begin

section \<open>Chart extraction (\<^verbatim>\<open>esr/simple.py\<close>)\<close>

subsection \<open>Values crossing the browser boundary\<close>

text \<open>
  The extraction script runs in the page and hands JavaScript values to Python. A finite
  JavaScript number is modelled by a real (comparisons of doubles are exact); the three
  non-finite numbers and the non-numbers keep constructors of their own, because
  \<^verbatim>\<open>typeof point.x === 'number'\<close> tells them apart.
\<close>

datatype js_value =
    JNumber real
  | JNaN
  | JInfinity
  | JNegInfinity
  | JString string
  | JNull
  | JUndefined

datatype js_error = RangeError

fun typeof_number :: "js_value \<Rightarrow> bool" where
  "typeof_number (JNumber r) = True"
| "typeof_number JNaN = True"
| "typeof_number JInfinity = True"
| "typeof_number JNegInfinity = True"
| "typeof_number (JString s) = False"
| "typeof_number JNull = False"
| "typeof_number JUndefined = False"

definition EPOCH_THRESHOLD :: real where
  "EPOCH_THRESHOLD = 1000000000000"

text \<open>\<^verbatim>\<open>point.x > 1000000000000\<close>, evaluated only on values of type number.\<close>

fun number_gt :: "js_value \<Rightarrow> real \<Rightarrow> bool" where
  "number_gt (JNumber r) t = (r > t)"
| "number_gt JInfinity t = True"
| "number_gt v t = False"

definition is_epoch :: "js_value \<Rightarrow> bool" where
  "is_epoch v = (typeof_number v \<and> number_gt v EPOCH_THRESHOLD)"

text \<open>
  \<^verbatim>\<open>new Date(point.x).toISOString()\<close>: a time value beyond 8.64e15 ms (or a non-finite
  one) is an invalid date, whose \<^verbatim>\<open>toISOString\<close> throws; any other is clipped to whole
  milliseconds. The ISO string, and the pandas timestamp read back from it, are
  represented by that number of milliseconds since the epoch.
\<close>

definition MAX_TIME_VALUE :: real where
  "MAX_TIME_VALUE = 8640000000000000"

fun toISOString :: "js_value \<Rightarrow> js_error + int" where
  "toISOString (JNumber r) =
     (if \<bar>r\<bar> \<le> MAX_TIME_VALUE then Inr (if r < 0 then \<lceil>r\<rceil> else \<lfloor>r\<rfloor>) else Inl RangeError)"
| "toISOString v = Inl RangeError"

subsection \<open>The point mapper of the extraction script\<close>

text \<open>A Highcharts point as the script reads it: \<^verbatim>\<open>point.x\<close>, \<^verbatim>\<open>point.y\<close>, \<^verbatim>\<open>point.category\<close>.\<close>

record hc_point =
  point_x :: js_value
  point_y :: js_value
  point_category :: js_value

text \<open>
  The \<^verbatim>\<open>dataPoint\<close> object: \<^verbatim>\<open>x\<close> and \<^verbatim>\<open>y\<close> always, \<^verbatim>\<open>datetime\<close> and \<^verbatim>\<open>category\<close> only when
  the script sets them (an absent key is \<open>None\<close>).
\<close>

record data_point =
  dp_x :: js_value
  dp_y :: js_value
  dp_datetime :: "int option"
  dp_category :: "js_value option"

definition point_mapper :: "hc_point \<Rightarrow> js_error + data_point" where
  "point_mapper point =
     (let dataPoint = \<lparr>dp_x = point_x point, dp_y = point_y point,
                        dp_datetime = None, dp_category = None\<rparr> in
      case (if is_epoch (point_x point)
            then (case toISOString (point_x point) of
                    Inl e \<Rightarrow> Inl e
                  | Inr stamp \<Rightarrow> Inr (dataPoint\<lparr>dp_datetime := Some stamp\<rparr>))
            else Inr dataPoint) of
        Inl e \<Rightarrow> Inl e
      | Inr dataPoint \<Rightarrow>
          Inr (if point_category point \<noteq> JUndefined
               then dataPoint\<lparr>dp_category := Some (point_category point)\<rparr>
               else dataPoint))"

text \<open>\<^verbatim>\<open>series.data.map(...)\<close>: the first exception aborts the whole script.\<close>

fun map_points :: "hc_point list \<Rightarrow> js_error + data_point list" where
  "map_points [] = Inr []"
| "map_points (p # ps) =
     (case point_mapper p of
        Inl e \<Rightarrow> Inl e
      | Inr d \<Rightarrow> (case map_points ps of Inl e \<Rightarrow> Inl e | Inr ds \<Rightarrow> Inr (d # ds)))"

subsection \<open>Title matching inside the extraction script\<close>

text \<open>
  A bounding rectangle in page coordinates. The coordinates are doubles, modelled as
  reals, so the subtractions below are exact.
\<close>

record dom_rect =
  rect_top :: real
  rect_bottom :: real
  rect_left :: real
  rect_right :: real

record title_info =
  title_text :: string
  title_position :: dom_rect

text \<open>The filter on candidate elements: trimmed text of more than 3 and fewer than 100 characters.\<close>

definition is_title_candidate :: "string \<Rightarrow> bool" where
  "is_title_candidate text = (text \<noteq> [] \<and> length text > 3 \<and> length text < 100)"

text \<open>Decimal rendering of a chart index, for \<^verbatim>\<open>'Chart ' + chartIndex\<close>.\<close>

definition digit_char :: "nat \<Rightarrow> char" where
  "digit_char d = ''0123456789'' ! d"

fun string_of_nat :: "nat \<Rightarrow> string" where
  "string_of_nat n =
     (if n < 10 then [digit_char n] else string_of_nat (n div 10) @ [digit_char (n mod 10)])"

declare string_of_nat.simps [simp del]

definition fallback_title :: "nat \<Rightarrow> string" where
  "fallback_title chartIndex = ''Chart '' @ string_of_nat chartIndex"

definition distance :: "dom_rect \<Rightarrow> title_info \<Rightarrow> real" where
  "distance chartRect titleInfo = rect_top chartRect - rect_bottom (title_position titleInfo)"

definition horizontalOverlap :: "dom_rect \<Rightarrow> title_info \<Rightarrow> real" where
  "horizontalOverlap chartRect titleInfo =
     min (rect_right (title_position titleInfo)) (rect_right chartRect)
     - max (rect_left (title_position titleInfo)) (rect_left chartRect)"

text \<open>
  The loop state is \<^verbatim>\<open>(bestTitle, bestDistance)\<close>; \<open>None\<close> stands for the initial
  \<^verbatim>\<open>Infinity\<close>, below which every distance lies.
\<close>

definition less_best :: "real \<Rightarrow> real option \<Rightarrow> bool" where
  "less_best d best = (case best of None \<Rightarrow> True | Some b \<Rightarrow> d < b)"

definition title_step :: "dom_rect \<Rightarrow> string \<times> real option \<Rightarrow> title_info \<Rightarrow> string \<times> real option" where
  "title_step chartRect best titleInfo =
     (if rect_bottom (title_position titleInfo) \<le> rect_top chartRect
      then (if distance chartRect titleInfo < 200 \<and> horizontalOverlap chartRect titleInfo > 0
               \<and> less_best (distance chartRect titleInfo) (snd best)
            then (title_text titleInfo, Some (distance chartRect titleInfo))
            else best)
      else best)"

definition find_title :: "dom_rect \<Rightarrow> nat \<Rightarrow> title_info list \<Rightarrow> string \<times> real option" where
  "find_title chartRect chartIndex titles =
     foldl (title_step chartRect) (fallback_title chartIndex, None) titles"

definition bestTitle :: "dom_rect \<Rightarrow> nat \<Rightarrow> title_info list \<Rightarrow> string" where
  "bestTitle chartRect chartIndex titles = fst (find_title chartRect chartIndex titles)"

text \<open>The three predicates a candidate has to satisfy at once.\<close>

definition qualifies :: "dom_rect \<Rightarrow> title_info \<Rightarrow> bool" where
  "qualifies chartRect titleInfo =
     (rect_bottom (title_position titleInfo) \<le> rect_top chartRect
      \<and> distance chartRect titleInfo < 200
      \<and> horizontalOverlap chartRect titleInfo > 0)"

definition nearest_above :: "dom_rect \<Rightarrow> title_info list \<Rightarrow> nat \<Rightarrow> bool" where
  "nearest_above chartRect titles i =
     (i < length titles \<and> qualifies chartRect (titles ! i)
      \<and> (\<forall>j < length titles. qualifies chartRect (titles ! j) \<longrightarrow>
             distance chartRect (titles ! i) \<le> distance chartRect (titles ! j))
      \<and> (\<forall>j < i. qualifies chartRect (titles ! j) \<longrightarrow>
             distance chartRect (titles ! i) < distance chartRect (titles ! j)))"

subsection \<open>Conversion of the extracted charts to tables\<close>

record series_data =
  series_name :: string
  series_type :: string
  series_points :: "data_point list"

record chart_data =
  chart_index :: nat
  chart_title :: string
  chart_position :: dom_rect
  chart_series :: "series_data list"

text \<open>
  \<^verbatim>\<open>pd.to_datetime\<close> on the string \<^verbatim>\<open>toISOString\<close> wrote. A year outside 0000 to 9999 is
  written with a sign and six digits, a form \<^verbatim>\<open>pd.to_datetime\<close> does not parse: it raises.
  Any other string is read back as the time it stands for.
\<close>

datatype pandas_error = ToDatetimeError int

definition expanded_year :: "int \<Rightarrow> bool" where
  "expanded_year stamp = (stamp < - 62167219200000 \<or> 253402300800000 \<le> stamp)"

definition pd_to_datetime :: "int \<Rightarrow> pandas_error + int" where
  "pd_to_datetime stamp = (if expanded_year stamp then Inl (ToDatetimeError stamp) else Inr stamp)"

text \<open>
  A row dictionary of \<^verbatim>\<open>convert_to_dataframes\<close>: the keys \<^verbatim>\<open>series_name\<close> and \<^verbatim>\<open>value\<close> are
  always there, \<^verbatim>\<open>datetime\<close>, \<^verbatim>\<open>x\<close> and \<^verbatim>\<open>category\<close> only when the loop body sets them.
\<close>

record row =
  row_series_name :: string
  row_value :: js_value
  row_datetime :: "int option"
  row_x :: "js_value option"
  row_category :: "js_value option"

definition make_row :: "string \<Rightarrow> data_point \<Rightarrow> pandas_error + row" where
  "make_row name point =
     (let r = \<lparr>row_series_name = name, row_value = dp_y point,
                row_datetime = None, row_x = None, row_category = None\<rparr> in
      case (case dp_datetime point of
              Some stamp \<Rightarrow>
                (case pd_to_datetime stamp of
                   Inl e \<Rightarrow> Inl e
                 | Inr t \<Rightarrow> Inr (r\<lparr>row_datetime := Some t\<rparr>))
            | None \<Rightarrow> Inr (r\<lparr>row_x := Some (dp_x point)\<rparr>)) of
        Inl e \<Rightarrow> Inl e
      | Inr r \<Rightarrow>
          Inr (if dp_category point \<noteq> None
               then r\<lparr>row_category := dp_category point\<rparr>
               else r))"

text \<open>
  The two nested loops, each \<^verbatim>\<open>all_data.append(row)\<close> adding at the end; an exception
  leaves both.
\<close>

fun append_points :: "row list \<Rightarrow> string \<Rightarrow> data_point list \<Rightarrow> pandas_error + row list" where
  "append_points acc name [] = Inr acc"
| "append_points acc name (point # points) =
     (case make_row name point of
        Inl e \<Rightarrow> Inl e
      | Inr r \<Rightarrow> append_points (acc @ [r]) name points)"

fun append_series :: "row list \<Rightarrow> series_data list \<Rightarrow> pandas_error + row list" where
  "append_series acc [] = Inr acc"
| "append_series acc (s # ss) =
     (case append_points acc (series_name s) (series_points s) of
        Inl e \<Rightarrow> Inl e
      | Inr acc' \<Rightarrow> append_series acc' ss)"

definition all_data :: "chart_data \<Rightarrow> pandas_error + row list" where
  "all_data chart = append_series [] (chart_series chart)"

text \<open>
  The table built from the rows. When some row has a \<^verbatim>\<open>datetime\<close>, that column becomes
  the index and the table is sorted on it, rows without a timestamp last. pandas does not
  promise an order among equal timestamps; the model keeps them in their former order.
\<close>

record data_frame =
  df_index :: "string option"
  df_rows :: "row list"

definition has_datetime :: "row \<Rightarrow> bool" where
  "has_datetime r = (row_datetime r \<noteq> None)"

definition datetime_key :: "row \<Rightarrow> int" where
  "datetime_key r = (case row_datetime r of None \<Rightarrow> 0 | Some t \<Rightarrow> t)"

definition sort_index :: "row list \<Rightarrow> row list" where
  "sort_index rows =
     sort_key datetime_key (filter has_datetime rows) @ filter (\<lambda>r. \<not> has_datetime r) rows"

definition make_df :: "row list \<Rightarrow> data_frame" where
  "make_df rows =
     (if list_ex has_datetime rows
      then \<lparr>df_index = Some ''datetime'', df_rows = sort_index rows\<rparr>
      else \<lparr>df_index = None, df_rows = rows\<rparr>)"

text \<open>
  The result dictionary, in insertion order: assigning to a key already present replaces
  its value where it stands. The loop over the charts stops at the first exception.
\<close>

definition store_chart ::
  "(string \<times> data_frame) list \<Rightarrow> string \<Rightarrow> row list \<Rightarrow> (string \<times> data_frame) list" where
  "store_chart dataframes title rows =
     (if rows \<noteq> []
      then AList.update title (make_df rows) dataframes
      else dataframes)"

fun convert_charts ::
  "(string \<times> data_frame) list \<Rightarrow> chart_data list \<Rightarrow> pandas_error + (string \<times> data_frame) list" where
  "convert_charts dataframes [] = Inr dataframes"
| "convert_charts dataframes (chart # charts) =
     (case all_data chart of
        Inl e \<Rightarrow> Inl e
      | Inr rows \<Rightarrow> convert_charts (store_chart dataframes (chart_title chart) rows) charts)"

definition convert_to_dataframes ::
  "chart_data list \<Rightarrow> pandas_error + (string \<times> data_frame) list" where
  "convert_to_dataframes charts = convert_charts [] charts"

section \<open>Dataset collation (\<^verbatim>\<open>esr/collate.py\<close>)\<close>

subsection \<open>Enumerations and file name patterns\<close>

definition AS_ENUM :: "string list" where
  "AS_ENUM = [''reg_down'', ''reg_up'', ''non_spin'', ''spin'']"

definition BID_ENUM :: "string list" where
  "BID_ENUM = [
     ''[-$150,-$100]'', ''(-$100,-$50]'', ''(-$50,-$15]'', ''(-$15, $0]'',
     ''($0, $15]'', ''($15, $50]'', ''($50, $100]'', ''($100, $200]'',
     ''($200, $500]'', ''($500, $1000]'', ''($1000, $2000]'', ''self_schedule'']"

definition ENERGY_ENUM :: "string list" where
  "ENERGY_ENUM = [''ifm'', ''ruc'', ''fmm'', ''rtd'']"

definition OFFER_ENUM :: "string list" where
  "OFFER_ENUM = [
     ''self_schedule'',
     ''[-$150,-$100]'', ''(-$100,-$50]'', ''(-$50,-$15]'', ''(-$15, $0]'',
     ''($0, $15]'', ''($15, $50]'', ''($50, $100]'', ''($100, $200]'',
     ''($200, $500]'', ''($500, $1000]'', ''($1000, $2000]'']"

definition SOC_ENUM :: "string list" where
  "SOC_ENUM = [''ifm'', ''ruc'', ''fmm'', ''rtd'']"

text \<open>
  The file name patterns are all \<^verbatim>\<open>(\d{8})\<close> followed by fixed text, in which the only
  regular-expression operator is the dot. \<^verbatim>\<open>pattern.match\<close> anchors at the start of the
  name only. Characters are bytes here, so \<^verbatim>\<open>\d\<close> is an ASCII digit.
\<close>

datatype re_item = Digit | AnyChar | Lit char

fun item_matches :: "re_item \<Rightarrow> char \<Rightarrow> bool" where
  "item_matches Digit c = (c \<in> set ''0123456789'')"
| "item_matches AnyChar c = (c \<noteq> CHR 0x0A)"
| "item_matches (Lit l) c = (c = l)"

fun re_match :: "re_item list \<Rightarrow> string \<Rightarrow> bool" where
  "re_match [] name = True"
| "re_match (i # items) [] = False"
| "re_match (i # items) (c # name) = (item_matches i c \<and> re_match items name)"

definition date_prefixed :: "string \<Rightarrow> re_item list" where
  "date_prefixed rest =
     replicate 8 Digit @ map (\<lambda>c. if c = CHR ''.'' then AnyChar else Lit c) rest"

definition FILE_PATTERNS :: "(string \<times> re_item list) list" where
  "FILE_PATTERNS = [
     (''fmm_as_awards'', date_prefixed ''_FMM AS Awards.csv''),
     (''fmm_bids'', date_prefixed ''_FMM Energy Bid In Capacity - Charge.csv''),
     (''fmm_offers'', date_prefixed ''_FMM Energy Bid In Capacity - Discharge.csv''),
     (''ifm_as_awards'', date_prefixed ''_IFM AS Awards.csv''),
     (''ifm_bids'', date_prefixed ''_IFM Energy Bid In Capacity - Charge.csv''),
     (''ifm_offers'', date_prefixed ''_IFM Energy Bid In Capacity - Discharge.csv''),
     (''energy_awards'', date_prefixed ''_Total Energy Awards.csv''),
     (''state_of_charge'', date_prefixed ''_Total State of Charge.csv'')]"

subsection \<open>Files, tables and errors\<close>

text \<open>
  A per-day file as \<^verbatim>\<open>scan_csv\<close> reads it under the schema overrides: one record per
  line, with the four columns \<^verbatim>\<open>datetime\<close>, \<^verbatim>\<open>series_name\<close>, \<^verbatim>\<open>value\<close>, \<^verbatim>\<open>category\<close>, every
  cell present.
\<close>

record csv_row =
  csv_datetime :: int
  csv_series_name :: string
  csv_value :: real
  csv_category :: string

type_synonym csv_file = "csv_row list"

record metric_row =
  mr_timestamp :: int
  mr_dimension :: string
  mr_volume :: real

text \<open>
  A formatted table: the name of its dimension column (\<^verbatim>\<open>market\<close> or \<^verbatim>\<open>service\<close>), the
  categories of that column's enumeration type, and the rows.
\<close>

record metric_table =
  dim_column :: string
  categories :: "string list"
  table_rows :: "metric_row list"

text \<open>
  \<open>InvalidOperationError\<close> is what the strict cast of polars raises; it carries the
  failing values that its message lists. The message names a column label and the two
  types as well, which are left out.
\<close>

datatype py_error =
    ValueError string
  | AttributeError string
  | FileNotFoundError string
  | InvalidOperationError "string list"
  | SchemaError
  | ColumnNotFoundError string

text \<open>
  A \<^verbatim>\<open>LazyFrame\<close> is a query plan, run when it is collected or sunk; it is represented
  by what running it yields.
\<close>

type_synonym lazy_frame = "py_error + metric_table"

subsection \<open>What is taken from polars\<close>

text \<open>
  Two behaviours of the library are not fixed by the repository and are parameters of
  the model. \<^verbatim>\<open>str.to_lowercase()\<close> follows the Unicode case tables of the library. The
  strict cast, when it fails, raises an error whose message lists failing values of the
  column, chosen by a rule of the library.
\<close>

record polars =
  to_lowercase :: "string \<Rightarrow> string"
  listed_failures :: "string list \<Rightarrow> string list"

subsection \<open>Column expressions\<close>

text \<open>
  The class \<^verbatim>\<open>\s\<close> of the regular expression is the Unicode property White_Space. Text
  is UTF-8 here, so each of its 25 characters is the byte sequence below. In well-formed
  UTF-8 such a sequence begins only where a character begins.
\<close>

definition WHITE_SPACE :: "string list" where
  "WHITE_SPACE = [
     [CHR 0x09], [CHR 0x0A], [CHR 0x0B], [CHR 0x0C], [CHR 0x0D], [CHR 0x20],
     [CHR 0xC2, CHR 0x85], [CHR 0xC2, CHR 0xA0],
     [CHR 0xE1, CHR 0x9A, CHR 0x80],
     [CHR 0xE2, CHR 0x80, CHR 0x80], [CHR 0xE2, CHR 0x80, CHR 0x81],
     [CHR 0xE2, CHR 0x80, CHR 0x82], [CHR 0xE2, CHR 0x80, CHR 0x83],
     [CHR 0xE2, CHR 0x80, CHR 0x84], [CHR 0xE2, CHR 0x80, CHR 0x85],
     [CHR 0xE2, CHR 0x80, CHR 0x86], [CHR 0xE2, CHR 0x80, CHR 0x87],
     [CHR 0xE2, CHR 0x80, CHR 0x88], [CHR 0xE2, CHR 0x80, CHR 0x89],
     [CHR 0xE2, CHR 0x80, CHR 0x8A],
     [CHR 0xE2, CHR 0x80, CHR 0xA8], [CHR 0xE2, CHR 0x80, CHR 0xA9],
     [CHR 0xE2, CHR 0x80, CHR 0xAF], [CHR 0xE2, CHR 0x81, CHR 0x9F],
     [CHR 0xE3, CHR 0x80, CHR 0x80]]"

text \<open>The number of bytes of the whitespace character the text begins with, 0 for none.\<close>

definition whitespace_length :: "string \<Rightarrow> nat" where
  "whitespace_length s =
     (case filter (\<lambda>w. prefix w s) WHITE_SPACE of [] \<Rightarrow> 0 | w # ws \<Rightarrow> length w)"

text \<open>
  \<^verbatim>\<open>str.replace(r"\s", "_")\<close> replaces the first match only (\<^verbatim>\<open>str.replace_all\<close> would
  replace every one).
\<close>

fun str_replace_whitespace :: "string \<Rightarrow> string" where
  "str_replace_whitespace [] = []"
| "str_replace_whitespace (c # cs) =
     (if 0 < whitespace_length (c # cs)
      then CHR ''_'' # drop (whitespace_length (c # cs)) (c # cs)
      else c # str_replace_whitespace cs)"

text \<open>\<^verbatim>\<open>Expr.replace({old: new})\<close> maps a cell equal to \<open>old\<close> to \<open>new\<close> and keeps any other.\<close>

definition replace_value :: "string \<Rightarrow> string \<Rightarrow> string \<Rightarrow> string" where
  "replace_value old new s = (if s = old then new else s)"

text \<open>The two expressions the formatters apply to \<^verbatim>\<open>series_name\<close> before the cast.\<close>

definition lower_underscore :: "polars \<Rightarrow> string \<Rightarrow> string" where
  "lower_underscore pl s = str_replace_whitespace (to_lowercase pl s)"

definition lower_self_schedule :: "polars \<Rightarrow> string \<Rightarrow> string" where
  "lower_self_schedule pl s = replace_value ''self schedule'' ''self_schedule'' (to_lowercase pl s)"

text \<open>\<^verbatim>\<open>cast(enum)\<close>, strict: one value outside the categories fails the whole column.\<close>

definition cast_enum :: "polars \<Rightarrow> string list \<Rightarrow> string list \<Rightarrow> py_error + string list" where
  "cast_enum pl enum column =
     (let failures = filter (\<lambda>s. s \<notin> set enum) column in
      if failures = [] then Inr column
      else Inl (InvalidOperationError (listed_failures pl failures)))"

text \<open>
  The body shared by the five formatters: scan, drop \<^verbatim>\<open>category\<close>, rewrite and cast
  \<^verbatim>\<open>series_name\<close>, rename the three columns.
\<close>

definition format_frame ::
  "polars \<Rightarrow> (string \<Rightarrow> string) \<Rightarrow> string list \<Rightarrow> string \<Rightarrow> csv_file \<Rightarrow> lazy_frame" where
  "format_frame pl expr enum dimname file =
     (case cast_enum pl enum (map (\<lambda>r. expr (csv_series_name r)) file) of
        Inl e \<Rightarrow> Inl e
      | Inr names \<Rightarrow>
          Inr \<lparr>dim_column = dimname, categories = enum,
               table_rows = map (\<lambda>(r, n). \<lparr>mr_timestamp = csv_datetime r, mr_dimension = n,
                                            mr_volume = csv_value r\<rparr>) (zip file names)\<rparr>)"

definition format_energy_awards :: "polars \<Rightarrow> csv_file \<Rightarrow> lazy_frame" where
  "format_energy_awards pl file_path =
     format_frame pl (lower_underscore pl) ENERGY_ENUM ''market'' file_path"

definition format_ifm_as_awards :: "polars \<Rightarrow> csv_file \<Rightarrow> lazy_frame" where
  "format_ifm_as_awards pl file_path =
     format_frame pl (lower_underscore pl) AS_ENUM ''service'' file_path"

definition format_ifm_bids :: "polars \<Rightarrow> csv_file \<Rightarrow> lazy_frame" where
  "format_ifm_bids pl file_path =
     format_frame pl (lower_self_schedule pl) BID_ENUM ''service'' file_path"

definition format_ifm_offers :: "polars \<Rightarrow> csv_file \<Rightarrow> lazy_frame" where
  "format_ifm_offers pl file_path =
     format_frame pl (lower_self_schedule pl) OFFER_ENUM ''service'' file_path"

definition format_state_of_charge :: "polars \<Rightarrow> csv_file \<Rightarrow> lazy_frame" where
  "format_state_of_charge pl file_path =
     format_frame pl (lower_self_schedule pl) SOC_ENUM ''market'' file_path"

definition format_fmm_as_awards :: "polars \<Rightarrow> csv_file \<Rightarrow> lazy_frame" where
  "format_fmm_as_awards pl file_path = format_ifm_as_awards pl file_path"

definition format_fmm_bids :: "polars \<Rightarrow> csv_file \<Rightarrow> lazy_frame" where
  "format_fmm_bids pl file_path = format_ifm_bids pl file_path"

definition format_fmm_offers :: "polars \<Rightarrow> csv_file \<Rightarrow> lazy_frame" where
  "format_fmm_offers pl file_path = format_ifm_offers pl file_path"

text \<open>\<^verbatim>\<open>getattr(self, name)\<close> over the methods of the class.\<close>

definition getattr :: "polars \<Rightarrow> string \<Rightarrow> (csv_file \<Rightarrow> lazy_frame) option" where
  "getattr pl name = map_of [
     (''format_energy_awards'', format_energy_awards pl),
     (''format_fmm_as_awards'', format_fmm_as_awards pl),
     (''format_fmm_bids'', format_fmm_bids pl),
     (''format_fmm_offers'', format_fmm_offers pl),
     (''format_ifm_as_awards'', format_ifm_as_awards pl),
     (''format_ifm_bids'', format_ifm_bids pl),
     (''format_ifm_offers'', format_ifm_offers pl),
     (''format_state_of_charge'', format_state_of_charge pl)] name"

subsection \<open>Concatenation and sorting\<close>

text \<open>
  \<^verbatim>\<open>pl.concat(frames, how="vertical")\<close> refuses an empty list at once. Otherwise the frames
  are stacked in list order when the plan runs; a frame that fails makes the whole plan
  fail, and the columns have to agree.
\<close>

fun vstack :: "lazy_frame \<Rightarrow> lazy_frame \<Rightarrow> lazy_frame" where
  "vstack (Inl e) lf = Inl e"
| "vstack (Inr t) (Inl e) = Inl e"
| "vstack (Inr t) (Inr u) =
     (if dim_column u = dim_column t \<and> categories u = categories t
      then Inr (t\<lparr>table_rows := table_rows t @ table_rows u\<rparr>)
      else Inl SchemaError)"

definition concat_vertical :: "lazy_frame list \<Rightarrow> py_error + lazy_frame" where
  "concat_vertical frames =
     (case frames of
        [] \<Rightarrow> Inl (ValueError ''cannot concat empty list'')
      | lf # lfs \<Rightarrow> Inr (foldl vstack lf lfs))"

text \<open>
  A column of enumeration type sorts by the position of its value among the categories,
  not by its text. polars does not promise an order among rows with equal keys; the model
  keeps them in their former order.
\<close>

definition enum_index :: "string list \<Rightarrow> string \<Rightarrow> nat" where
  "enum_index enum s = length (takeWhile (\<lambda>c. c \<noteq> s) enum)"

definition row_key :: "string list \<Rightarrow> metric_row \<Rightarrow> int \<times> nat" where
  "row_key enum r = (mr_timestamp r, enum_index enum (mr_dimension r))"

definition sort_frame :: "string list \<Rightarrow> lazy_frame \<Rightarrow> lazy_frame" where
  "sort_frame by lf =
     (case lf of
        Inl e \<Rightarrow> Inl e
      | Inr t \<Rightarrow>
          if by = [''timestamp'', dim_column t]
          then Inr (t\<lparr>table_rows := sort_key (row_key (categories t)) (table_rows t)\<rparr>)
          else Inl (ColumnNotFoundError (by ! 1)))"

subsection \<open>The primary method\<close>

text \<open>
  A directory is the list of its entries in the order \<^verbatim>\<open>iterdir\<close> yields them, each a
  name with the file behind it; a root that does not exist is \<open>None\<close>.
\<close>

type_synonym directory = "(string \<times> csv_file) list"

record file_system =
  storage_dir :: "directory option"
  hybrid_dir :: "directory option"

definition STORAGE_ROOT :: string where
  "STORAGE_ROOT = ''data/storage''"

definition HYBRID_ROOT :: string where
  "HYBRID_ROOT = ''data/hybrid''"

text \<open>What \<^verbatim>\<open>collate\<close> asks of the file system, in order.\<close>

datatype io_event = Iterdir string | ScanCsv string string

definition quote :: "string \<Rightarrow> string" where
  "quote s = [CHR 0x27] @ s @ [CHR 0x27]"

fun join :: "string \<Rightarrow> string list \<Rightarrow> string" where
  "join sep [] = []"
| "join sep [s] = s"
| "join sep (s # t # ts) = s @ sep @ join sep (t # ts)"

definition dtype_message :: "string \<Rightarrow> string" where
  "dtype_message dtype =
     quote dtype @ '' is not a recognized dtype; must be one of ''
       @ join '', '' (map quote (map fst FILE_PATTERNS))"

definition btype_message :: "string \<Rightarrow> string" where
  "btype_message btype =
     quote btype @ '' is not a recognized battery type; must be one of ''
       @ quote ''storage'' @ '' or '' @ quote ''hybrid''"

definition collate ::
  "polars \<Rightarrow> file_system \<Rightarrow> string \<Rightarrow> string \<Rightarrow> io_event list \<times> (py_error + lazy_frame)" where
  "collate pl fs dtype btype =
     (case map_of FILE_PATTERNS dtype of
        None \<Rightarrow> ([], Inl (ValueError (dtype_message dtype)))
      | Some pattern \<Rightarrow>
          (case (if btype = ''storage'' then Some (STORAGE_ROOT, storage_dir fs)
                 else if btype = ''hybrid'' then Some (HYBRID_ROOT, hybrid_dir fs)
                 else None) of
             None \<Rightarrow> ([], Inl (ValueError (btype_message btype)))
           | Some (root_path, listing) \<Rightarrow>
               (case getattr pl (''format_'' @ dtype) of
                  None \<Rightarrow> ([], Inl (AttributeError (''format_'' @ dtype)))
                | Some formatter \<Rightarrow>
                    (case listing of
                       None \<Rightarrow> ([Iterdir root_path], Inl (FileNotFoundError root_path))
                     | Some entries \<Rightarrow>
                         (let matching = filter (\<lambda>(name, csv). re_match pattern name) entries;
                              frames = map (\<lambda>(name, csv). formatter csv) matching;
                              by = (if dtype = ''energy_awards'' \<or> dtype = ''state_of_charge''
                                    then [''timestamp'', ''market'']
                                    else [''timestamp'', ''service''])
                          in (Iterdir root_path # map (\<lambda>(name, csv). ScanCsv root_path name) matching,
                              case concat_vertical frames of
                                Inl e \<Rightarrow> Inl e
                              | Inr lf \<Rightarrow> Inr (sort_frame by lf)))))))"

subsection \<open>What each metric kind uses\<close>

text \<open>
  The expression, the enumeration and the dimension column of the formatter that
  \<^verbatim>\<open>collate\<close> picks for a metric kind, tabulated from the eight methods; the lemma
  \<open>getattr_formatter\<close> below checks the table against them.
\<close>

definition series_name_expr :: "polars \<Rightarrow> string \<Rightarrow> string \<Rightarrow> string" where
  "series_name_expr pl dtype =
     (if dtype \<in> set [''energy_awards'', ''ifm_as_awards'', ''fmm_as_awards'']
      then lower_underscore pl else lower_self_schedule pl)"

definition enum_of :: "string \<Rightarrow> string list" where
  "enum_of dtype =
     (if dtype = ''energy_awards'' then ENERGY_ENUM
      else if dtype \<in> set [''ifm_as_awards'', ''fmm_as_awards''] then AS_ENUM
      else if dtype \<in> set [''ifm_bids'', ''fmm_bids''] then BID_ENUM
      else if dtype \<in> set [''ifm_offers'', ''fmm_offers''] then OFFER_ENUM
      else SOC_ENUM)"

definition dim_of :: "string \<Rightarrow> string" where
  "dim_of dtype =
     (if dtype \<in> set [''energy_awards'', ''state_of_charge''] then ''market'' else ''service'')"

definition formatted_row :: "polars \<Rightarrow> string \<Rightarrow> csv_row \<Rightarrow> metric_row" where
  "formatted_row pl dtype r =
     \<lparr>mr_timestamp = csv_datetime r,
      mr_dimension = series_name_expr pl dtype (csv_series_name r),
      mr_volume = csv_value r\<rparr>"

definition parsed_table :: "polars \<Rightarrow> string \<Rightarrow> csv_file \<Rightarrow> metric_table" where
  "parsed_table pl dtype csv =
     \<lparr>dim_column = dim_of dtype, categories = enum_of dtype,
      table_rows = map (formatted_row pl dtype) csv\<rparr>"

text \<open>The directory \<^verbatim>\<open>collate\<close> lists for a resource kind.\<close>

definition selected_dir :: "file_system \<Rightarrow> string \<Rightarrow> directory option" where
  "selected_dir fs btype =
     (if btype = ''storage'' then storage_dir fs
      else if btype = ''hybrid'' then hybrid_dir fs
      else None)"

section \<open>Sample inputs\<close>

text \<open>
  A sample of the library's behaviour. On text of ASCII characters the lower-casing of
  Unicode is the one of ASCII; a single failing value is listed as it is.
\<close>

definition ascii_lower_char :: "char \<Rightarrow> char" where
  "ascii_lower_char c =
     (case map_of (zip ''ABCDEFGHIJKLMNOPQRSTUVWXYZ'' ''abcdefghijklmnopqrstuvwxyz'') c of
        None \<Rightarrow> c
      | Some l \<Rightarrow> l)"

definition sample_polars :: polars where
  "sample_polars = \<lparr>to_lowercase = map ascii_lower_char, listed_failures = take 1\<rparr>"

definition csv_line :: "int \<Rightarrow> string \<Rightarrow> real \<Rightarrow> csv_row" where
  "csv_line t name v =
     \<lparr>csv_datetime = t, csv_series_name = name, csv_value = v, csv_category = name\<rparr>"

definition storage_only :: "directory \<Rightarrow> file_system" where
  "storage_only entries = \<lparr>storage_dir = Some entries, hybrid_dir = None\<rparr>"

definition page_rect :: dom_rect where
  "page_rect = \<lparr>rect_top = 300, rect_bottom = 700, rect_left = 0, rect_right = 800\<rparr>"

definition heading :: "string \<Rightarrow> real \<Rightarrow> real \<Rightarrow> title_info" where
  "heading text t b =
     \<lparr>title_text = text,
      title_position = \<lparr>rect_top = t, rect_bottom = b, rect_left = 10, rect_right = 200\<rparr>\<rparr>"

definition highcharts_point :: "real \<Rightarrow> real \<Rightarrow> hc_point" where
  "highcharts_point x y = \<lparr>point_x = JNumber x, point_y = JNumber y, point_category = JUndefined\<rparr>"

definition ordinal_point :: "real \<Rightarrow> real \<Rightarrow> data_point" where
  "ordinal_point x y =
     \<lparr>dp_x = JNumber x, dp_y = JNumber y, dp_datetime = None, dp_category = None\<rparr>"

definition epoch_point :: "int \<Rightarrow> real \<Rightarrow> data_point" where
  "epoch_point ms y =
     \<lparr>dp_x = JNumber (of_int ms), dp_y = JNumber y, dp_datetime = Some ms, dp_category = None\<rparr>"

definition sample_chart :: "nat \<Rightarrow> string \<Rightarrow> series_data list \<Rightarrow> chart_data" where
  "sample_chart i t ss =
     \<lparr>chart_index = i, chart_title = t, chart_position = page_rect, chart_series = ss\<rparr>"

definition line_series :: "string \<Rightarrow> data_point list \<Rightarrow> series_data" where
  "line_series name ps = \<lparr>series_name = name, series_type = ''line'', series_points = ps\<rparr>"

lemmas enum_defs = AS_ENUM_def BID_ENUM_def ENERGY_ENUM_def OFFER_ENUM_def SOC_ENUM_def

lemmas formatter_defs =
  format_energy_awards_def format_ifm_as_awards_def format_ifm_bids_def format_ifm_offers_def
  format_state_of_charge_def format_fmm_as_awards_def format_fmm_bids_def format_fmm_offers_def

section \<open>Properties of the chart extraction\<close>

subsection \<open>The point mapper and the row builder\<close>

lemma point_mapper_Inr:
  assumes "point_mapper p = Inr d"
  shows "dp_x d = point_x p" and "dp_y d = point_y p"
    and "dp_datetime d \<noteq> None \<longleftrightarrow> is_epoch (point_x p)"
  using assms
  by (auto simp: point_mapper_def Let_def split: if_splits sum.splits)

lemma point_mapper_Inl:
  "(\<exists>e. point_mapper p = Inl e) \<longleftrightarrow>
     is_epoch (point_x p) \<and> (\<exists>e. toISOString (point_x p) = Inl e)"
  by (auto simp: point_mapper_def Let_def split: if_splits sum.splits)

lemma point_mapper_ordinal:
  assumes "\<not> is_epoch (point_x p)"
  shows "\<exists>d. point_mapper p = Inr d \<and> dp_datetime d = None \<and> dp_x d = point_x p"
  using assms by (simp add: point_mapper_def Let_def)

lemma point_mapper_epoch:
  assumes "point_x p = JNumber v" and "1000000000000 < v" and "v \<le> 8640000000000000"
  shows "\<exists>d. point_mapper p = Inr d \<and> dp_datetime d = Some \<lfloor>v\<rfloor> \<and> dp_x d = point_x p"
  using assms
  by (simp add: point_mapper_def Let_def is_epoch_def EPOCH_THRESHOLD_def MAX_TIME_VALUE_def)

lemma point_mapper_out_of_range:
  assumes "(point_x p = JNumber v \<and> 8640000000000000 < v) \<or> point_x p = JInfinity"
  shows "point_mapper p = Inl RangeError"
  using assms
  by (auto simp: point_mapper_def Let_def is_epoch_def EPOCH_THRESHOLD_def MAX_TIME_VALUE_def)

lemma map_points_Inr:
  "map_points ps = Inr ds \<Longrightarrow>
     length ds = length ps \<and> (\<forall>i < length ps. point_mapper (ps ! i) = Inr (ds ! i))"
proof (induction ps arbitrary: ds)
  case Nil
  then show ?case by simp
next
  case (Cons p ps)
  then show ?case
    by (auto split: sum.splits simp: nth_Cons split: nat.splits)
qed

lemma make_row_Inr:
  assumes "make_row n d = Inr r"
  shows "row_datetime r = dp_datetime d"
    and "row_x r = (if dp_datetime d \<noteq> None then None else Some (dp_x d))"
    and "row_series_name r = n" and "row_value r = dp_y d" and "row_category r = dp_category d"
    and "\<forall>stamp. dp_datetime d = Some stamp \<longrightarrow> \<not> expanded_year stamp"
  using assms
  by (auto simp: make_row_def Let_def pd_to_datetime_def split: option.splits if_splits)

lemma make_row_returns:
  "(\<exists>r. make_row n d = Inr r) \<longleftrightarrow> (\<forall>stamp. dp_datetime d = Some stamp \<longrightarrow> \<not> expanded_year stamp)"
  by (auto simp: make_row_def Let_def pd_to_datetime_def split: option.splits if_splits)

lemma make_row_cases: "(\<exists>r. make_row n d = Inr r) \<or> (\<exists>e. make_row n d = Inl e)"
  by (cases "make_row n d") auto

lemma append_points_Inr:
  "append_points acc n ds = Inr rows \<Longrightarrow>
     \<exists>new. rows = acc @ new \<and> length new = length ds
       \<and> (\<forall>i < length ds. make_row n (ds ! i) = Inr (new ! i))"
proof (induction ds arbitrary: acc)
  case Nil
  then show ?case by simp
next
  case (Cons d ds)
  then obtain r where r: "make_row n d = Inr r" and rest: "append_points (acc @ [r]) n ds = Inr rows"
    by (auto split: sum.splits)
  from Cons.IH[OF rest] obtain new where new: "rows = (acc @ [r]) @ new" "length new = length ds"
    "\<forall>i < length ds. make_row n (ds ! i) = Inr (new ! i)"
    by blast
  have "\<forall>i < length (d # ds). make_row n ((d # ds) ! i) = Inr ((r # new) ! i)"
    using r new(3) by (auto simp: nth_Cons split: nat.splits)
  then show ?case
    using new(1,2) by (intro exI[of _ "r # new"]) simp
qed

text \<open>
  Claim C1, as the code has it. A point whose \<^verbatim>\<open>x\<close> is not a number above 1000000000000
  yields a row with the ordinal \<^verbatim>\<open>x\<close> and no timestamp. A numeric \<^verbatim>\<open>x\<close> above that
  threshold and below 253402300800000 (the year 10000) yields a row with the timestamp
  and no ordinal. From 253402300800000 to 8640000000000000 the script returns and
  \<^verbatim>\<open>pd.to_datetime\<close> raises; above 8640000000000000 and at \<^verbatim>\<open>Infinity\<close> the script itself
  throws: no row is emitted. Every row that is emitted has exactly one of the two fields,
  the timestamp exactly when \<^verbatim>\<open>x\<close> is a number above the threshold; and the rows of a
  series are those of its points, in order.
\<close>

theorem point_timestamp_or_ordinal:
  "(\<not> is_epoch (point_x p) \<longrightarrow>
      (\<exists>d r. point_mapper p = Inr d \<and> make_row name d = Inr r
         \<and> row_datetime r = None \<and> row_x r = Some (point_x p)))
   \<and> (point_x p = JNumber v \<and> 1000000000000 < v \<and> v < 253402300800000 \<longrightarrow>
      (\<exists>d r. point_mapper p = Inr d \<and> make_row name d = Inr r
         \<and> row_datetime r = Some \<lfloor>v\<rfloor> \<and> row_x r = None))
   \<and> (point_x p = JNumber v \<and> 253402300800000 \<le> v \<and> v \<le> 8640000000000000 \<longrightarrow>
      (\<exists>d e. point_mapper p = Inr d \<and> make_row name d = Inl e))
   \<and> ((point_x p = JNumber v \<and> 8640000000000000 < v) \<or> point_x p = JInfinity \<longrightarrow>
      point_mapper p = Inl RangeError)
   \<and> (point_mapper p = Inr d \<and> make_row name d = Inr r \<longrightarrow>
      ((row_datetime r \<noteq> None) \<noteq> (row_x r \<noteq> None))
      \<and> (row_datetime r \<noteq> None \<longleftrightarrow> is_epoch (point_x p))
      \<and> (row_x r \<noteq> None \<longrightarrow> row_x r = Some (point_x p)))
   \<and> (map_points ps = Inr ds \<and> append_points [] name ds = Inr rows \<longrightarrow>
      length rows = length ps
      \<and> (\<forall>i < length ps. point_mapper (ps ! i) = Inr (ds ! i)
            \<and> make_row name (ds ! i) = Inr (rows ! i)))"
proof -
  have a: "\<exists>d r. point_mapper p = Inr d \<and> make_row name d = Inr r
         \<and> row_datetime r = None \<and> row_x r = Some (point_x p)"
    if "\<not> is_epoch (point_x p)"
  proof -
    from point_mapper_ordinal[OF that] obtain d where d: "point_mapper p = Inr d"
      "dp_datetime d = None" "dp_x d = point_x p" by blast
    then obtain r where r: "make_row name d = Inr r"
      using make_row_returns[of name d] by auto
    show ?thesis using d r make_row_Inr(1,2)[OF r] by auto
  qed
  have b: "\<exists>d r. point_mapper p = Inr d \<and> make_row name d = Inr r
         \<and> row_datetime r = Some \<lfloor>v\<rfloor> \<and> row_x r = None"
    if h: "point_x p = JNumber v \<and> 1000000000000 < v \<and> v < 253402300800000"
  proof -
    have "v \<le> 8640000000000000" using h by simp
    with point_mapper_epoch[of p v] h obtain d where d: "point_mapper p = Inr d"
      "dp_datetime d = Some \<lfloor>v\<rfloor>" by blast
    have "\<not> expanded_year \<lfloor>v\<rfloor>"
      using h by (simp add: expanded_year_def floor_less_iff le_floor_iff)
    then obtain r where r: "make_row name d = Inr r"
      using make_row_returns[of name d] d(2) by auto
    show ?thesis using d r make_row_Inr(1,2)[OF r] by auto
  qed
  have c: "\<exists>d e. point_mapper p = Inr d \<and> make_row name d = Inl e"
    if h: "point_x p = JNumber v \<and> 253402300800000 \<le> v \<and> v \<le> 8640000000000000"
  proof -
    have "1000000000000 < v" using h by simp
    with point_mapper_epoch[of p v] h obtain d where d: "point_mapper p = Inr d"
      "dp_datetime d = Some \<lfloor>v\<rfloor>" by blast
    have "expanded_year \<lfloor>v\<rfloor>"
      using h by (simp add: expanded_year_def le_floor_iff)
    then have "\<not> (\<exists>r. make_row name d = Inr r)"
      using make_row_returns[of name d] d(2) by auto
    then show ?thesis using d(1) make_row_cases[of name d] by blast
  qed
  have e: "((row_datetime r \<noteq> None) \<noteq> (row_x r \<noteq> None))
      \<and> (row_datetime r \<noteq> None \<longleftrightarrow> is_epoch (point_x p))
      \<and> (row_x r \<noteq> None \<longrightarrow> row_x r = Some (point_x p))"
    if h: "point_mapper p = Inr d \<and> make_row name d = Inr r"
  proof -
    have pm: "point_mapper p = Inr d" and mr: "make_row name d = Inr r" using h by simp_all
    show ?thesis
      using point_mapper_Inr[OF pm] make_row_Inr(1,2)[OF mr] by (auto split: if_splits)
  qed
  have f: "length rows = length ps
      \<and> (\<forall>i < length ps. point_mapper (ps ! i) = Inr (ds ! i)
            \<and> make_row name (ds ! i) = Inr (rows ! i))"
    if h: "map_points ps = Inr ds \<and> append_points [] name ds = Inr rows"
  proof -
    have mp: "map_points ps = Inr ds" and ap: "append_points [] name ds = Inr rows"
      using h by simp_all
    show ?thesis
      using map_points_Inr[OF mp] append_points_Inr[OF ap] by auto
  qed
  show ?thesis
    using a b c point_mapper_out_of_range[of p v] e f by blast
qed

text \<open>
  The theorem at a series of two points, one at an epoch time and one at an ordinal
  position: the first row has the timestamp only, the second the ordinal only.
\<close>

theorem point_timestamp_or_ordinal_witness:
  "\<not> is_epoch (JNumber 3)
   \<and> point_mapper (highcharts_point 3 1) = Inr (ordinal_point 3 1)
   \<and> map_sum id (\<lambda>r. (row_datetime r, row_x r)) (make_row ''Discharge'' (ordinal_point 3 1))
       = Inr (None, Some (JNumber 3))
   \<and> point_mapper (highcharts_point 1700000000000 12.5) = Inr (epoch_point 1700000000000 12.5)
   \<and> map_sum id (\<lambda>r. (row_datetime r, row_x r))
        (make_row ''Discharge'' (epoch_point 1700000000000 12.5))
       = Inr (Some 1700000000000, None)
   \<and> map_points [highcharts_point 1700000000000 12.5, highcharts_point 3 1]
       = Inr [epoch_point 1700000000000 12.5, ordinal_point 3 1]
   \<and> map_sum id length
        (append_points [] ''Discharge'' [epoch_point 1700000000000 12.5, ordinal_point 3 1])
       = Inr 2"
proof -
  let ?p = "highcharts_point 1700000000000 12.5" and ?q = "highcharts_point 3 1"
  let ?d = "epoch_point 1700000000000 12.5" and ?e = "ordinal_point 3 1"
  have n: "\<not> is_epoch (JNumber 3)"
    by (simp add: is_epoch_def EPOCH_THRESHOLD_def)
  have pq: "point_mapper ?q = Inr ?e"
    by (simp add: highcharts_point_def ordinal_point_def point_mapper_def is_epoch_def
        EPOCH_THRESHOLD_def)
  have pp: "point_mapper ?p = Inr ?d"
    by (simp add: highcharts_point_def epoch_point_def point_mapper_def is_epoch_def
        EPOCH_THRESHOLD_def MAX_TIME_VALUE_def)
  have xq: "point_x ?q = JNumber 3" and xp: "point_x ?p = JNumber 1700000000000"
    by (simp_all add: highcharts_point_def)
  have "\<exists>d r. point_mapper ?q = Inr d \<and> make_row ''Discharge'' d = Inr r
           \<and> row_datetime r = None \<and> row_x r = Some (point_x ?q)"
    using point_timestamp_or_ordinal[where p = ?q and name = "''Discharge''", THEN conjunct1]
      n xq by simp
  then obtain r where r: "make_row ''Discharge'' ?e = Inr r" "row_datetime r = None"
    "row_x r = Some (JNumber 3)"
    using pq xq by auto
  have "\<exists>d r. point_mapper ?p = Inr d \<and> make_row ''Discharge'' d = Inr r
           \<and> row_datetime r = Some \<lfloor>1700000000000 :: real\<rfloor> \<and> row_x r = None"
    using point_timestamp_or_ordinal[where p = ?p and name = "''Discharge''"
        and v = 1700000000000, THEN conjunct2, THEN conjunct1] xp by simp
  then obtain s where s: "make_row ''Discharge'' ?d = Inr s" "row_datetime s = Some 1700000000000"
    "row_x s = None"
    using pp by auto
  have mp: "map_points [?p, ?q] = Inr [?d, ?e]"
    using pp pq by simp
  have ap: "append_points [] ''Discharge'' [?d, ?e] = Inr [s, r]"
    using r(1) s(1) by simp
  have "length [s, r] = length [?p, ?q]"
    using point_timestamp_or_ordinal[where ps = "[?p, ?q]" and ds = "[?d, ?e]"
        and rows = "[s, r]" and name = "''Discharge''"] mp ap
    by blast
  then show ?thesis
    using n pq pp r s mp ap by simp
qed

text \<open>
  Claim C1 as stated fails for numbers above the threshold that lie beyond the dates
  either side can write or read. At 10000000000000000 the script throws. At
  253402300800000, the first millisecond of the year 10000, the script returns the point
  with its timestamp and the conversion raises. Neither point gets a row.
\<close>

theorem timestamp_out_of_range_counterexample:
  "is_epoch (JNumber 10000000000000000)
   \<and> point_mapper (highcharts_point 10000000000000000 1) = Inl RangeError
   \<and> is_epoch (JNumber 253402300800000)
   \<and> point_mapper (highcharts_point 253402300800000 1) = Inr (epoch_point 253402300800000 1)
   \<and> make_row ''Discharge'' (epoch_point 253402300800000 1)
       = Inl (ToDatetimeError 253402300800000)"
  by (simp add: highcharts_point_def epoch_point_def point_mapper_def is_epoch_def
      EPOCH_THRESHOLD_def MAX_TIME_VALUE_def make_row_def pd_to_datetime_def expanded_year_def)

subsection \<open>Title matching\<close>

lemma title_loop_invariant:
  "case foldl (title_step c) (fb, None) ts of (bt, bd) \<Rightarrow>
     (bd = None \<longleftrightarrow> \<not> (\<exists>t \<in> set ts. qualifies c t)) \<and>
     (bd = None \<longrightarrow> bt = fb) \<and>
     (\<forall>d. bd = Some d \<longrightarrow> (\<exists>i. nearest_above c ts i \<and> bt = title_text (ts ! i) \<and> d = distance c (ts ! i)))"
proof (induction ts rule: rev_induct)
  case Nil
  then show ?case by simp
next
  case (snoc t ts)
  obtain bt bd where st: "foldl (title_step c) (fb, None) ts = (bt, bd)" by force
  note IH = snoc[unfolded st, simplified]
  show ?case
  proof (cases "qualifies c t \<and> less_best (distance c t) bd")
    case True
    then have step: "title_step c (bt, bd) t = (title_text t, Some (distance c t))"
      by (simp add: title_step_def qualifies_def)
    have "nearest_above c (ts @ [t]) (length ts)"
    proof (cases bd)
      case None
      then show ?thesis using True IH
        by (auto simp: nearest_above_def nth_append)
    next
      case (Some d)
      then obtain i where i: "nearest_above c ts i" "d = distance c (ts ! i)"
        using IH by auto
      have lt: "distance c t < d" using True Some by (simp add: less_best_def)
      show ?thesis using True i lt
        by (fastforce simp: nearest_above_def nth_append)
    qed
    then show ?thesis using st step True by auto
  next
    case False
    then have step: "title_step c (bt, bd) t = (bt, bd)"
      by (auto simp add: title_step_def qualifies_def)
    show ?thesis
    proof (cases "qualifies c t")
      case q: True
      then have nl: "\<not> less_best (distance c t) bd" using False by simp
      then obtain d where d: "bd = Some d" "d \<le> distance c t"
        by (auto simp: less_best_def split: option.splits)
      then obtain i where i: "nearest_above c ts i" "bt = title_text (ts ! i)" "d = distance c (ts ! i)"
        using IH by auto
      have na: "nearest_above c (ts @ [t]) i" using i d q
        by (auto simp: nearest_above_def nth_append less_Suc_eq)
      moreover have "(ts @ [t]) ! i = ts ! i" using i by (simp add: nearest_above_def nth_append)
      ultimately show ?thesis using st step d i q by auto
    next
      case nq: False
      have "\<And>i. nearest_above c ts i \<Longrightarrow> nearest_above c (ts @ [t]) i \<and> (ts @ [t]) ! i = ts ! i"
        using nq by (auto simp: nearest_above_def nth_append less_Suc_eq)
      then have keep: "\<And>i. nearest_above c ts i \<Longrightarrow> nearest_above c (ts @ [t]) i"
        and same: "\<And>i. nearest_above c ts i \<Longrightarrow> (ts @ [t]) ! i = ts ! i" by auto
      show ?thesis
      proof (cases bd)
        case None
        then show ?thesis using st step nq IH by auto
      next
        case (Some d)
        then obtain i where i: "nearest_above c ts i" "bt = title_text (ts ! i)" "d = distance c (ts ! i)"
          using IH by auto
        have "\<exists>k. nearest_above c (ts @ [t]) k \<and> bt = title_text ((ts @ [t]) ! k)
                 \<and> d = distance c ((ts @ [t]) ! k)"
          using keep[OF i(1)] same[OF i(1)] i by (intro exI[of _ i]) simp
        then show ?thesis using st step nq IH Some by auto
      qed
    qed
  qed
qed

lemma nearest_above_unique:
  "nearest_above c ts i \<Longrightarrow> nearest_above c ts j \<Longrightarrow> i = j"
  unfolding nearest_above_def
  by (metis linorder_neqE_nat not_less)

text \<open>
  Claim C2. The fallback label \<^verbatim>\<open>'Chart ' + chartIndex\<close> is the loop's initial assignment.
  It is left in place exactly when no candidate satisfies the three predicates at once,
  and is then the title. When some candidate qualifies, the loop assigns the text of the
  qualifying candidate of least vertical gap, the first such in encounter order.
\<close>

theorem title_matcher_selection:
  "(snd (find_title c idx titles) = None \<longleftrightarrow> \<not> (\<exists>t \<in> set titles. qualifies c t))
   \<and> (\<not> (\<exists>t \<in> set titles. qualifies c t) \<longrightarrow>
        find_title c idx titles = (fallback_title idx, None)
        \<and> bestTitle c idx titles = fallback_title idx)
   \<and> ((\<exists>t \<in> set titles. qualifies c t) \<longrightarrow>
        (\<exists>i. nearest_above c titles i
           \<and> find_title c idx titles
               = (title_text (titles ! i), Some (distance c (titles ! i)))
           \<and> bestTitle c idx titles = title_text (titles ! i)))"
proof -
  note inv = title_loop_invariant[where c = c and fb = "fallback_title idx" and ts = titles]
  have a: "snd (find_title c idx titles) = None \<longleftrightarrow> \<not> (\<exists>t \<in> set titles. qualifies c t)"
    using inv by (auto simp: find_title_def split: prod.splits)
  have b: "find_title c idx titles = (fallback_title idx, None)
        \<and> bestTitle c idx titles = fallback_title idx"
    if "\<not> (\<exists>t \<in> set titles. qualifies c t)"
    using inv that by (auto simp: bestTitle_def find_title_def split: prod.splits)
  have c: "\<exists>i. nearest_above c titles i
           \<and> find_title c idx titles
               = (title_text (titles ! i), Some (distance c (titles ! i)))
           \<and> bestTitle c idx titles = title_text (titles ! i)"
    if "\<exists>t \<in> set titles. qualifies c t"
    using inv that by (auto simp: bestTitle_def find_title_def split: prod.splits)
  show ?thesis using a b c by blast
qed

text \<open>
  The theorem on a page with a heading 50 units above the chart and another below it, and
  on a page with the lower heading alone.
\<close>

theorem title_matcher_selection_witness:
  "qualifies page_rect (heading ''Energy Awards'' 230 250)
   \<and> bestTitle page_rect 0 [heading ''Energy Awards'' 230 250, heading ''Other Metric'' 710 730]
       = ''Energy Awards''
   \<and> \<not> qualifies page_rect (heading ''Other Metric'' 710 730)
   \<and> bestTitle page_rect 3 [heading ''Other Metric'' 710 730] = ''Chart 3''"
proof -
  have q: "qualifies page_rect (heading ''Energy Awards'' 230 250)"
    by (simp add: page_rect_def heading_def qualifies_def distance_def horizontalOverlap_def)
  have nq: "\<not> qualifies page_rect (heading ''Other Metric'' 710 730)"
    by (simp add: page_rect_def heading_def qualifies_def)
  have ex: "\<exists>t \<in> set [heading ''Energy Awards'' 230 250, heading ''Other Metric'' 710 730].
              qualifies page_rect t"
    using q by simp
  have nex: "\<not> (\<exists>t \<in> set [heading ''Other Metric'' 710 730]. qualifies page_rect t)"
    using nq by simp
  from title_matcher_selection[of page_rect 0
      "[heading ''Energy Awards'' 230 250, heading ''Other Metric'' 710 730]"] ex
  obtain i where i:
    "nearest_above page_rect [heading ''Energy Awards'' 230 250, heading ''Other Metric'' 710 730] i"
    "bestTitle page_rect 0 [heading ''Energy Awards'' 230 250, heading ''Other Metric'' 710 730]
       = title_text ([heading ''Energy Awards'' 230 250, heading ''Other Metric'' 710 730] ! i)"
    by blast
  have "i = 0"
    using i(1) nq by (auto simp: nearest_above_def less_Suc_eq)
  then have first: "bestTitle page_rect 0
       [heading ''Energy Awards'' 230 250, heading ''Other Metric'' 710 730] = ''Energy Awards''"
    using i(2) by (simp add: heading_def)
  have "bestTitle page_rect 3 [heading ''Other Metric'' 710 730] = fallback_title 3"
    using title_matcher_selection[of page_rect 3 "[heading ''Other Metric'' 710 730]"] nex
    by blast
  then have second: "bestTitle page_rect 3 [heading ''Other Metric'' 710 730] = ''Chart 3''"
    by (simp add: fallback_title_def string_of_nat.simps digit_char_def)
  show ?thesis using q nq first second by simp
qed

subsection \<open>Tables\<close>

lemma append_points_returns:
  "\<forall>d \<in> set ds. \<not> isl (make_row n d) \<Longrightarrow>
     append_points acc n ds = Inr (acc @ map (\<lambda>d. projr (make_row n d)) ds)"
proof (induction ds arbitrary: acc)
  case Nil
  then show ?case by simp
next
  case (Cons d ds)
  then obtain r where "make_row n d = Inr r"
    by (cases "make_row n d") auto
  then show ?case using Cons by simp
qed

lemma append_points_raises:
  "\<exists>d \<in> set ds. isl (make_row n d) \<Longrightarrow> isl (append_points acc n ds)"
proof (induction ds arbitrary: acc)
  case Nil
  then show ?case by simp
next
  case (Cons d ds)
  then show ?case by (cases "make_row n d") auto
qed

lemma append_series_returns:
  "\<forall>s \<in> set ss. \<forall>d \<in> set (series_points s). \<not> isl (make_row (series_name s) d) \<Longrightarrow>
     append_series acc ss
       = Inr (acc @ concat (map (\<lambda>s. map (\<lambda>d. projr (make_row (series_name s) d))
                                      (series_points s)) ss))"
proof (induction ss arbitrary: acc)
  case Nil
  then show ?case by simp
next
  case (Cons s ss)
  have "append_points acc (series_name s) (series_points s)
          = Inr (acc @ map (\<lambda>d. projr (make_row (series_name s) d)) (series_points s))"
    using Cons.prems by (intro append_points_returns) simp
  then show ?case using Cons by simp
qed

lemma append_series_raises:
  "\<exists>s \<in> set ss. \<exists>d \<in> set (series_points s). isl (make_row (series_name s) d) \<Longrightarrow>
     isl (append_series acc ss)"
proof (induction ss arbitrary: acc)
  case Nil
  then show ?case by simp
next
  case (Cons s ss)
  show ?case
  proof (cases "append_points acc (series_name s) (series_points s)")
    case (Inl e)
    then show ?thesis by simp
  next
    case (Inr acc')
    then have "\<not> (\<exists>d \<in> set (series_points s). isl (make_row (series_name s) d))"
      using append_points_raises[of "series_points s" "series_name s" acc] by auto
    then have "\<exists>s \<in> set ss. \<exists>d \<in> set (series_points s). isl (make_row (series_name s) d)"
      using Cons.prems by auto
    then show ?thesis using Inr Cons.IH by simp
  qed
qed

lemma all_data_returns:
  "\<forall>s \<in> set (chart_series chart). \<forall>d \<in> set (series_points s).
      \<not> isl (make_row (series_name s) d) \<Longrightarrow>
   all_data chart
     = Inr (concat (map (\<lambda>s. map (\<lambda>d. projr (make_row (series_name s) d)) (series_points s))
                     (chart_series chart)))"
  unfolding all_data_def using append_series_returns[of "chart_series chart" "[]"] by simp

lemma all_data_raises:
  "\<exists>s \<in> set (chart_series chart). \<exists>d \<in> set (series_points s).
      isl (make_row (series_name s) d) \<Longrightarrow> isl (all_data chart)"
  unfolding all_data_def by (rule append_series_raises)

lemma mset_sort_index: "mset (sort_index rows) = mset rows"
  by (simp add: sort_index_def)

lemma filter_sort_index:
  "filter has_datetime (sort_index rows) = sort_key datetime_key (filter has_datetime rows)"
  by (simp add: sort_index_def filter_sort[symmetric])

lemma sorted_sort_index:
  "sorted (map datetime_key (filter has_datetime (sort_index rows)))"
  by (simp add: filter_sort_index)

lemma keys_update: "fst ` set (AList.update k v al) = insert k (fst ` set al)"
  by (induction al) auto

lemma update_fresh:
  "k \<notin> fst ` set al \<Longrightarrow> AList.update k v al = al @ [(k, v)]"
  by (induction al) auto

lemma convert_charts_returns:
  "(\<forall>c \<in> set charts. \<not> isl (all_data c)) \<Longrightarrow> \<exists>d'. convert_charts d charts = Inr d'"
proof (induction charts arbitrary: d)
  case Nil
  then show ?case by simp
next
  case (Cons c cs)
  then obtain rows where "all_data c = Inr rows"
    by (cases "all_data c") auto
  then show ?case using Cons by simp
qed

lemma convert_charts_raises:
  "\<exists>c \<in> set charts. isl (all_data c) \<Longrightarrow> isl (convert_charts d charts)"
proof (induction charts arbitrary: d)
  case Nil
  then show ?case by simp
next
  case (Cons c cs)
  then show ?case by (cases "all_data c") auto
qed

lemma convert_charts_distinct:
  "convert_charts d charts = Inr d' \<Longrightarrow> distinct (map fst d) \<Longrightarrow> distinct (map fst d')"
proof (induction charts arbitrary: d)
  case Nil
  then show ?case by simp
next
  case (Cons c cs)
  then obtain rows where r: "all_data c = Inr rows"
    and rest: "convert_charts (store_chart d (chart_title c) rows) cs = Inr d'"
    by (auto split: sum.splits)
  have "distinct (map fst (store_chart d (chart_title c) rows))"
    using Cons.prems(2) by (simp add: store_chart_def distinct_update)
  then show ?case using Cons.IH[OF rest] by simp
qed

lemma convert_charts_keys:
  "convert_charts d charts = Inr d' \<Longrightarrow>
     fst ` set d' = fst ` set d \<union> chart_title ` {c \<in> set charts. projr (all_data c) \<noteq> []}"
proof (induction charts arbitrary: d)
  case Nil
  then show ?case by simp
next
  case (Cons c cs)
  then obtain rows where r: "all_data c = Inr rows"
    and rest: "convert_charts (store_chart d (chart_title c) rows) cs = Inr d'"
    by (auto split: sum.splits)
  have "fst ` set (store_chart d (chart_title c) rows)
          = fst ` set d \<union> (if rows \<noteq> [] then {chart_title c} else {})"
    by (simp add: store_chart_def keys_update)
  then show ?case
    using Cons.IH[OF rest] r by auto
qed

lemma convert_charts_fresh:
  assumes "distinct (map chart_title charts)"
    and "\<forall>c \<in> set charts. \<not> isl (all_data c) \<and> projr (all_data c) \<noteq> []"
    and "\<forall>c \<in> set charts. chart_title c \<notin> fst ` set d"
  shows "convert_charts d charts
           = Inr (d @ map (\<lambda>c. (chart_title c, make_df (projr (all_data c)))) charts)"
  using assms
proof (induction charts arbitrary: d)
  case Nil
  then show ?case by simp
next
  case (Cons c cs)
  then obtain rows where r: "all_data c = Inr rows" "rows \<noteq> []"
    by (cases "all_data c") auto
  have fresh: "chart_title c \<notin> fst ` set d" using Cons.prems(3) by simp
  have st: "store_chart d (chart_title c) rows = d @ [(chart_title c, make_df rows)]"
    using r(2) update_fresh[OF fresh] by (simp add: store_chart_def)
  have "\<forall>c' \<in> set cs. chart_title c' \<notin> fst ` set (d @ [(chart_title c, make_df rows)])"
    using Cons.prems(1,3) by (auto simp: image_iff)
  then have "convert_charts (d @ [(chart_title c, make_df rows)]) cs
      = Inr ((d @ [(chart_title c, make_df rows)])
             @ map (\<lambda>c. (chart_title c, make_df (projr (all_data c)))) cs)"
    using Cons.prems(1,2) by (intro Cons.IH) auto
  then show ?case using r st by simp
qed

text \<open>
  Claim C3, as the code has it. The conversion raises when the rows of some chart cannot
  be built, and there is then no table at all. Otherwise the result is a dictionary
  keyed by title: it holds one table per distinct title among the charts that have at
  least one point, so a chart without points adds no table and charts sharing a title
  share one entry. When the titles are pairwise distinct and every chart has a point,
  that is one table per chart, in chart order, each built from the rows of its chart.
\<close>

theorem convert_one_table_per_title:
  "(if \<forall>c \<in> set charts. \<not> isl (all_data c)
    then \<exists>dataframes. convert_to_dataframes charts = Inr dataframes
           \<and> distinct (map fst dataframes)
           \<and> fst ` set dataframes
               = chart_title ` {c \<in> set charts. projr (all_data c) \<noteq> []}
           \<and> length dataframes
               = card (chart_title ` {c \<in> set charts. projr (all_data c) \<noteq> []})
           \<and> (distinct (map chart_title charts)
                \<and> (\<forall>c \<in> set charts. projr (all_data c) \<noteq> []) \<longrightarrow>
              dataframes = map (\<lambda>c. (chart_title c, make_df (projr (all_data c)))) charts)
    else isl (convert_to_dataframes charts))"
proof (cases "\<forall>c \<in> set charts. \<not> isl (all_data c)")
  case True
  from convert_charts_returns[OF True, of "[]"] obtain dataframes
    where df: "convert_to_dataframes charts = Inr dataframes"
    by (auto simp: convert_to_dataframes_def)
  then have cc: "convert_charts [] charts = Inr dataframes"
    by (simp add: convert_to_dataframes_def)
  have d: "distinct (map fst dataframes)"
    using convert_charts_distinct[OF cc] by simp
  have k: "fst ` set dataframes = chart_title ` {c \<in> set charts. projr (all_data c) \<noteq> []}"
    using convert_charts_keys[OF cc] by simp
  have "length dataframes = card (set (map fst dataframes))"
    using distinct_card[OF d] by simp
  then have l: "length dataframes
       = card (chart_title ` {c \<in> set charts. projr (all_data c) \<noteq> []})"
    using k by simp
  have e: "dataframes = map (\<lambda>c. (chart_title c, make_df (projr (all_data c)))) charts"
    if "distinct (map chart_title charts) \<and> (\<forall>c \<in> set charts. projr (all_data c) \<noteq> [])"
    using convert_charts_fresh[of charts "[]"] that True cc by simp
  have "\<exists>dataframes. convert_to_dataframes charts = Inr dataframes
           \<and> distinct (map fst dataframes)
           \<and> fst ` set dataframes
               = chart_title ` {c \<in> set charts. projr (all_data c) \<noteq> []}
           \<and> length dataframes
               = card (chart_title ` {c \<in> set charts. projr (all_data c) \<noteq> []})
           \<and> (distinct (map chart_title charts)
                \<and> (\<forall>c \<in> set charts. projr (all_data c) \<noteq> []) \<longrightarrow>
              dataframes = map (\<lambda>c. (chart_title c, make_df (projr (all_data c)))) charts)"
    using df d k l e by blast
  then show ?thesis
    unfolding if_P[OF True] .
next
  case False
  then have "isl (convert_to_dataframes charts)"
    unfolding convert_to_dataframes_def by (intro convert_charts_raises) simp
  then show ?thesis
    unfolding if_not_P[OF False] .
qed

text \<open>The theorem at two charts with different titles and one point each: two tables.\<close>

theorem convert_one_table_per_title_witness:
  "\<not> isl (all_data (sample_chart 0 ''T'' [line_series ''A'' [ordinal_point 0 1]]))
   \<and> \<not> isl (all_data (sample_chart 1 ''U'' [line_series ''A'' [ordinal_point 0 2]]))
   \<and> distinct (map chart_title
      [sample_chart 0 ''T'' [line_series ''A'' [ordinal_point 0 1]],
       sample_chart 1 ''U'' [line_series ''A'' [ordinal_point 0 2]]])
   \<and> projr (all_data (sample_chart 0 ''T'' [line_series ''A'' [ordinal_point 0 1]])) \<noteq> []
   \<and> projr (all_data (sample_chart 1 ''U'' [line_series ''A'' [ordinal_point 0 2]])) \<noteq> []
   \<and> map_sum id (map fst) (convert_to_dataframes
      [sample_chart 0 ''T'' [line_series ''A'' [ordinal_point 0 1]],
       sample_chart 1 ''U'' [line_series ''A'' [ordinal_point 0 2]]]) = Inr [''T'', ''U'']"
proof -
  let ?c0 = "sample_chart 0 ''T'' [line_series ''A'' [ordinal_point 0 1]]"
  let ?c1 = "sample_chart 1 ''U'' [line_series ''A'' [ordinal_point 0 2]]"
  have a0: "all_data ?c0 = Inr [\<lparr>row_series_name = ''A'', row_value = JNumber 1,
              row_datetime = None, row_x = Some (JNumber 0), row_category = None\<rparr>]"
    by (simp add: sample_chart_def line_series_def ordinal_point_def all_data_def make_row_def)
  have a1: "all_data ?c1 = Inr [\<lparr>row_series_name = ''A'', row_value = JNumber 2,
              row_datetime = None, row_x = Some (JNumber 0), row_category = None\<rparr>]"
    by (simp add: sample_chart_def line_series_def ordinal_point_def all_data_def make_row_def)
  have ok: "\<forall>c \<in> set [?c0, ?c1]. \<not> isl (all_data c)"
    using a0 a1 by simp
  have d: "distinct (map chart_title [?c0, ?c1])"
    by (simp add: sample_chart_def)
  have ne: "\<forall>c \<in> set [?c0, ?c1]. projr (all_data c) \<noteq> []"
    using a0 a1 by simp
  from convert_one_table_per_title[of "[?c0, ?c1]"] ok
  obtain dataframes where df: "convert_to_dataframes [?c0, ?c1] = Inr dataframes"
    and all: "distinct (map chart_title [?c0, ?c1])
                \<and> (\<forall>c \<in> set [?c0, ?c1]. projr (all_data c) \<noteq> []) \<longrightarrow>
              dataframes = map (\<lambda>c. (chart_title c, make_df (projr (all_data c)))) [?c0, ?c1]"
    by (auto split: if_splits)
  have "dataframes = map (\<lambda>c. (chart_title c, make_df (projr (all_data c)))) [?c0, ?c1]"
    using all d ne by blast
  then have "map fst dataframes = [''T'', ''U'']"
    by (simp add: sample_chart_def)
  then show ?thesis using a0 a1 d df by simp
qed

text \<open>
  Claim C3 as stated fails twice: a chart whose only series has no point yields no table,
  and two charts sharing the title ``T'' yield one table, holding the rows of the second.
\<close>

theorem convert_one_table_per_chart_counterexample:
  "convert_to_dataframes [sample_chart 0 ''Empty'' [line_series ''A'' []]] = Inr []
   \<and> map_sum id (map fst) (convert_to_dataframes
        [sample_chart 0 ''T'' [line_series ''A'' [ordinal_point 0 1]],
         sample_chart 1 ''T'' [line_series ''A'' [ordinal_point 0 2]]]) = Inr [''T'']
   \<and> map_sum id (map (map row_value \<circ> df_rows \<circ> snd))
       (convert_to_dataframes
        [sample_chart 0 ''T'' [line_series ''A'' [ordinal_point 0 1]],
         sample_chart 1 ''T'' [line_series ''A'' [ordinal_point 0 2]]])
     = Inr [[JNumber 2]]"
  by (simp add: sample_chart_def line_series_def ordinal_point_def convert_to_dataframes_def
      store_chart_def all_data_def make_row_def make_df_def has_datetime_def)

text \<open>
  Claim C8, as the code has it. The rows of a chart can be built unless some timestamp
  does not parse. They are then the chart's series in order, each with its points in
  order, and the chart's table is built from them. The table keeps that order, with no
  index set, when no row has a timestamp. When some row has one, the table is indexed by
  \<^verbatim>\<open>datetime\<close> and holds the same rows re-ordered by ascending timestamp.
\<close>

theorem rows_flattened_then_sorted_by_timestamp:
  "(isl (all_data chart) \<longleftrightarrow>
      (\<exists>s \<in> set (chart_series chart). \<exists>p \<in> set (series_points s).
          isl (make_row (series_name s) p)))
   \<and> (all_data chart = Inr rows \<longrightarrow>
        rows = concat (map (\<lambda>s. map (\<lambda>p. projr (make_row (series_name s) p)) (series_points s))
                        (chart_series chart))
        \<and> convert_to_dataframes [chart]
            = Inr (if rows = [] then [] else [(chart_title chart, make_df rows)])
        \<and> df_index (make_df rows) = (if list_ex has_datetime rows then Some ''datetime'' else None)
        \<and> (\<not> list_ex has_datetime rows \<longrightarrow> df_rows (make_df rows) = rows)
        \<and> (list_ex has_datetime rows \<longrightarrow>
             mset (df_rows (make_df rows)) = mset rows
             \<and> sorted (map datetime_key (filter has_datetime (df_rows (make_df rows))))))"
proof -
  have a: "isl (all_data chart) \<longleftrightarrow>
      (\<exists>s \<in> set (chart_series chart). \<exists>p \<in> set (series_points s).
          isl (make_row (series_name s) p))"
  proof (cases "\<exists>s \<in> set (chart_series chart). \<exists>p \<in> set (series_points s).
          isl (make_row (series_name s) p)")
    case True
    then show ?thesis using all_data_raises[of chart] by blast
  next
    case False
    then have "\<not> isl (all_data chart)"
      using all_data_returns[of chart] by simp
    then show ?thesis using False by blast
  qed
  have b: "rows = concat (map (\<lambda>s. map (\<lambda>p. projr (make_row (series_name s) p)) (series_points s))
                        (chart_series chart))"
    if r: "all_data chart = Inr rows"
  proof -
    have "\<not> isl (all_data chart)" using r by simp
    then have "\<forall>s \<in> set (chart_series chart). \<forall>d \<in> set (series_points s).
                 \<not> isl (make_row (series_name s) d)"
      using a by blast
    from all_data_returns[OF this] show ?thesis using r by simp
  qed
  have c: "convert_to_dataframes [chart]
            = Inr (if rows = [] then [] else [(chart_title chart, make_df rows)])"
    if "all_data chart = Inr rows"
    using that by (simp add: convert_to_dataframes_def store_chart_def)
  have d: "df_index (make_df rows) = (if list_ex has_datetime rows then Some ''datetime'' else None)"
    by (simp add: make_df_def)
  have e: "df_rows (make_df rows) = rows" if "\<not> list_ex has_datetime rows"
    using that by (simp add: make_df_def)
  have f: "mset (df_rows (make_df rows)) = mset rows
             \<and> sorted (map datetime_key (filter has_datetime (df_rows (make_df rows))))"
    if "list_ex has_datetime rows"
    using that by (simp add: make_df_def mset_sort_index sorted_sort_index)
  show ?thesis using a b c d e f by blast
qed

text \<open>
  The theorem at a chart of two ordinal series, whose table keeps the flattened order,
  and at a chart of one series with two timestamps in ascending order.
\<close>

theorem rows_flattened_then_sorted_by_timestamp_witness:
  "map_sum id (map (\<lambda>r. (row_series_name r, row_value r)))
      (all_data (sample_chart 0 ''T''
         [line_series ''A'' [ordinal_point 0 1, ordinal_point 1 2],
          line_series ''B'' [ordinal_point 0 3]]))
     = Inr [(''A'', JNumber 1), (''A'', JNumber 2), (''B'', JNumber 3)]
   \<and> map_sum id (map (\<lambda>(t, df). (t, df_index df, map row_value (df_rows df))))
      (convert_to_dataframes [sample_chart 0 ''T''
         [line_series ''A'' [ordinal_point 0 1, ordinal_point 1 2],
          line_series ''B'' [ordinal_point 0 3]]])
     = Inr [(''T'', None, [JNumber 1, JNumber 2, JNumber 3])]
   \<and> map_sum id (map (\<lambda>(t, df). (t, df_index df, length (df_rows df))))
      (convert_to_dataframes [sample_chart 1 ''U''
         [line_series ''A'' [epoch_point 1500000000000 1, epoch_point 2000000000000 2]]])
     = Inr [(''U'', Some ''datetime'', 2)]"
proof -
  let ?c0 = "sample_chart 0 ''T''
       [line_series ''A'' [ordinal_point 0 1, ordinal_point 1 2], line_series ''B'' [ordinal_point 0 3]]"
  let ?c1 = "sample_chart 1 ''U''
       [line_series ''A'' [epoch_point 1500000000000 1, epoch_point 2000000000000 2]]"
  let ?r0 = "[\<lparr>row_series_name = ''A'', row_value = JNumber 1, row_datetime = None,
                 row_x = Some (JNumber 0), row_category = None\<rparr>,
              \<lparr>row_series_name = ''A'', row_value = JNumber 2, row_datetime = None,
                 row_x = Some (JNumber 1), row_category = None\<rparr>,
              \<lparr>row_series_name = ''B'', row_value = JNumber 3, row_datetime = None,
                 row_x = Some (JNumber 0), row_category = None\<rparr>]"
  let ?r1 = "[\<lparr>row_series_name = ''A'', row_value = JNumber 1,
                 row_datetime = Some 1500000000000, row_x = None, row_category = None\<rparr>,
              \<lparr>row_series_name = ''A'', row_value = JNumber 2,
                 row_datetime = Some 2000000000000, row_x = None, row_category = None\<rparr>]"
  have a0: "all_data ?c0 = Inr ?r0"
    by (simp add: sample_chart_def line_series_def ordinal_point_def all_data_def make_row_def)
  have a1: "all_data ?c1 = Inr ?r1"
    by (simp add: sample_chart_def line_series_def epoch_point_def all_data_def make_row_def
        pd_to_datetime_def expanded_year_def)
  have o: "\<not> list_ex has_datetime ?r0" and e: "list_ex has_datetime ?r1"
    by (simp_all add: has_datetime_def)
  note t0 = rows_flattened_then_sorted_by_timestamp[where chart = ?c0 and rows = ?r0]
  note t1 = rows_flattened_then_sorted_by_timestamp[where chart = ?c1 and rows = ?r1]
  have c0: "convert_to_dataframes [?c0] = Inr [(chart_title ?c0, make_df ?r0)]"
    using t0 a0 by simp
  have i0: "df_index (make_df ?r0) = None"
    using t0 a0 o by presburger
  have k0: "df_rows (make_df ?r0) = ?r0"
    using t0 a0 o by blast
  have c1: "convert_to_dataframes [?c1] = Inr [(chart_title ?c1, make_df ?r1)]"
    using t1 a1 by simp
  have i1: "df_index (make_df ?r1) = Some ''datetime''"
    using t1 a1 e by presburger
  have "mset (df_rows (make_df ?r1)) = mset ?r1"
    using t1 a1 e by blast
  then have "size (mset (df_rows (make_df ?r1))) = size (mset ?r1)"
    by simp
  then have k1: "length (df_rows (make_df ?r1)) = 2"
    by simp
  show ?thesis
    unfolding a0 c0 c1 using i0 k0 i1 k1 by (simp add: sample_chart_def)
qed

text \<open>
  Claim C8 as stated fails on a chart with timestamps: series ``A'' comes first and has
  the later timestamp, and in the table the row of series ``B'' precedes it.
\<close>

theorem series_order_lost_counterexample:
  "map_sum id (map row_series_name)
     (all_data (sample_chart 0 ''T''
        [line_series ''A'' [epoch_point 2000000000000 1],
         line_series ''B'' [epoch_point 1500000000000 2]])) = Inr [''A'', ''B'']
   \<and> map_sum id (map (map row_series_name \<circ> df_rows \<circ> snd))
       (convert_to_dataframes [sample_chart 0 ''T''
          [line_series ''A'' [epoch_point 2000000000000 1],
           line_series ''B'' [epoch_point 1500000000000 2]]])
     = Inr [[''B'', ''A'']]"
  by (simp add: sample_chart_def line_series_def epoch_point_def convert_to_dataframes_def
      store_chart_def all_data_def make_row_def make_df_def sort_index_def has_datetime_def
      datetime_key_def pd_to_datetime_def expanded_year_def)

section \<open>Properties of the collation\<close>

subsection \<open>Dispatch and formatters\<close>

lemma dtype_cases:
  assumes "map_of FILE_PATTERNS dtype = Some pattern"
  shows "dtype \<in> set [''fmm_as_awards'', ''fmm_bids'', ''fmm_offers'', ''ifm_as_awards'',
                        ''ifm_bids'', ''ifm_offers'', ''energy_awards'', ''state_of_charge'']"
proof -
  have "dtype \<in> fst ` set FILE_PATTERNS"
    using assms by (metis domI dom_map_of_conv_image_fst)
  then show ?thesis by (simp add: FILE_PATTERNS_def)
qed

lemma getattr_formatter:
  assumes "map_of FILE_PATTERNS dtype = Some pattern"
  shows "getattr pl (''format_'' @ dtype)
           = Some (format_frame pl (series_name_expr pl dtype) (enum_of dtype) (dim_of dtype))"
  using dtype_cases[OF assms]
  by (auto simp: getattr_def formatter_defs series_name_expr_def enum_of_def dim_of_def fun_eq_iff)

lemma format_frame_Inr:
  assumes "format_frame pl (series_name_expr pl dtype) enum dimname file = Inr t"
  shows "dim_column t = dimname" "categories t = enum"
    "table_rows t = map (formatted_row pl dtype) file"
    "\<forall>r \<in> set file. series_name_expr pl dtype (csv_series_name r) \<in> set enum"
proof -
  let ?names = "map (\<lambda>r. series_name_expr pl dtype (csv_series_name r)) file"
  have c: "cast_enum pl enum ?names = Inr ?names"
    using assms by (auto simp: format_frame_def cast_enum_def Let_def split: if_splits sum.splits)
  then have t: "t = \<lparr>dim_column = dimname, categories = enum,
               table_rows = map (\<lambda>(r, n). \<lparr>mr_timestamp = csv_datetime r, mr_dimension = n,
                                            mr_volume = csv_value r\<rparr>) (zip file ?names)\<rparr>"
    using assms by (simp add: format_frame_def)
  show "dim_column t = dimname" "categories t = enum" by (simp_all add: t)
  have "zip xs (map g xs) = map (\<lambda>r. (r, g r)) xs" for g :: "csv_row \<Rightarrow> string" and xs
    by (induction xs) auto
  then show "table_rows t = map (formatted_row pl dtype) file"
    by (simp add: t formatted_row_def comp_def)
  show "\<forall>r \<in> set file. series_name_expr pl dtype (csv_series_name r) \<in> set enum"
    using c by (auto simp: cast_enum_def Let_def filter_empty_conv split: if_splits)
qed

lemma format_frame_fails:
  "isl (format_frame pl expr enum dimname file)
     \<longleftrightarrow> (\<exists>r \<in> set file. expr (csv_series_name r) \<notin> set enum)"
  by (auto simp: format_frame_def cast_enum_def Let_def filter_empty_conv)

lemma format_frame_error:
  assumes "\<exists>r \<in> set file. expr (csv_series_name r) \<notin> set enum"
  shows "format_frame pl expr enum dimname file
           = Inl (InvalidOperationError (listed_failures pl
               (filter (\<lambda>s. s \<notin> set enum) (map (\<lambda>r. expr (csv_series_name r)) file))))"
  using assms
  by (auto simp: format_frame_def cast_enum_def Let_def filter_empty_conv)

lemma format_frame_returns:
  assumes "\<forall>r \<in> set file. expr (csv_series_name r) \<in> set enum"
  shows "format_frame pl expr enum dimname file
           = Inr \<lparr>dim_column = dimname, categories = enum,
                  table_rows = map (\<lambda>r. \<lparr>mr_timestamp = csv_datetime r,
                                           mr_dimension = expr (csv_series_name r),
                                           mr_volume = csv_value r\<rparr>) file\<rparr>"
proof -
  have z: "zip xs (map g xs) = map (\<lambda>r. (r, g r)) xs" for g :: "csv_row \<Rightarrow> string" and xs
    by (induction xs) auto
  have "filter (\<lambda>s. s \<notin> set enum) (map (\<lambda>r. expr (csv_series_name r)) file) = []"
    using assms by (auto simp: filter_empty_conv)
  then show ?thesis
    by (simp add: format_frame_def cast_enum_def z comp_def)
qed

text \<open>
  Claim C9. The three \<^verbatim>\<open>fmm\<close> formatters return, on every file, what their \<^verbatim>\<open>ifm\<close>
  counterparts return, and the dispatch by method name reaches them under the \<^verbatim>\<open>fmm\<close>
  and the \<^verbatim>\<open>ifm\<close> metric kinds alike.
\<close>

theorem fmm_formatters_alias_ifm:
  "format_fmm_as_awards pl file_path = format_ifm_as_awards pl file_path
   \<and> format_fmm_bids pl file_path = format_ifm_bids pl file_path
   \<and> format_fmm_offers pl file_path = format_ifm_offers pl file_path
   \<and> map_option (\<lambda>formatter. formatter file_path) (getattr pl (''format_'' @ ''fmm_as_awards''))
       = map_option (\<lambda>formatter. formatter file_path) (getattr pl (''format_'' @ ''ifm_as_awards''))
   \<and> map_option (\<lambda>formatter. formatter file_path) (getattr pl (''format_'' @ ''fmm_bids''))
       = map_option (\<lambda>formatter. formatter file_path) (getattr pl (''format_'' @ ''ifm_bids''))
   \<and> map_option (\<lambda>formatter. formatter file_path) (getattr pl (''format_'' @ ''fmm_offers''))
       = map_option (\<lambda>formatter. formatter file_path) (getattr pl (''format_'' @ ''ifm_offers''))
   \<and> getattr pl (''format_'' @ ''fmm_as_awards'') \<noteq> None
   \<and> getattr pl (''format_'' @ ''fmm_bids'') \<noteq> None
   \<and> getattr pl (''format_'' @ ''fmm_offers'') \<noteq> None"
  by (simp add: getattr_def format_fmm_as_awards_def format_fmm_bids_def format_fmm_offers_def)

subsection \<open>Configuration errors\<close>

lemma sublist_appendI2: "sublist x b \<Longrightarrow> sublist x (a @ b)"
  unfolding sublist_def by (metis append_assoc)

lemma sublist_join: "x \<in> set xs \<Longrightarrow> sublist x (join sep xs)"
proof (induction sep xs rule: join.induct)
  case (1 sep)
  then show ?case by simp
next
  case (2 sep s)
  then show ?case by simp
next
  case (3 sep s t ts)
  show ?case
  proof (cases "x = s")
    case True
    then show ?thesis by simp
  next
    case False
    then have "sublist x (join sep (t # ts))" using 3 by simp
    then have "sublist x ((s @ sep) @ join sep (t # ts))" by (rule sublist_appendI2)
    then show ?thesis by simp
  qed
qed

lemma dtype_message_names:
  "k \<in> set (map fst FILE_PATTERNS) \<Longrightarrow> sublist (quote k) (dtype_message dtype)"
  unfolding dtype_message_def
  by (intro sublist_appendI2 sublist_join) force

lemma btype_message_names:
  "sublist (quote ''storage'') (btype_message btype)"
  "sublist (quote ''hybrid'') (btype_message btype)"
proof -
  have "btype_message btype
          = (quote btype @ '' is not a recognized battery type; must be one of '')
            @ quote ''storage'' @ ('' or '' @ quote ''hybrid'')"
    by (simp add: btype_message_def)
  then show "sublist (quote ''storage'') (btype_message btype)"
    unfolding sublist_def by blast
  have "btype_message btype
          = (quote btype @ '' is not a recognized battery type; must be one of ''
             @ quote ''storage'' @ '' or '') @ quote ''hybrid'' @ []"
    by (simp add: btype_message_def)
  then show "sublist (quote ''hybrid'') (btype_message btype)"
    unfolding sublist_def by blast
qed

text \<open>
  Claim C7. A \<^verbatim>\<open>dtype\<close> outside the eight keys of \<^verbatim>\<open>FILE_PATTERNS\<close> makes \<^verbatim>\<open>collate\<close> raise a
  \<^verbatim>\<open>ValueError\<close> whose message quotes each of the eight keys; a \<^verbatim>\<open>btype\<close> other than
  \<^verbatim>\<open>storage\<close> and \<^verbatim>\<open>hybrid\<close> makes it raise a \<^verbatim>\<open>ValueError\<close> too, whose message quotes
  both valid values when the \<^verbatim>\<open>dtype\<close> is a key. In either case nothing has been
  asked of the file system.
\<close>

theorem collate_configuration_errors:
  "map fst FILE_PATTERNS =
     [''fmm_as_awards'', ''fmm_bids'', ''fmm_offers'', ''ifm_as_awards'', ''ifm_bids'',
      ''ifm_offers'', ''energy_awards'', ''state_of_charge'']
   \<and> (dtype \<notin> set (map fst FILE_PATTERNS) \<longrightarrow>
        collate pl fs dtype btype = ([], Inl (ValueError (dtype_message dtype))))
   \<and> (btype \<noteq> ''storage'' \<and> btype \<noteq> ''hybrid'' \<longrightarrow>
        collate pl fs dtype btype =
          ([], Inl (ValueError (if dtype \<in> set (map fst FILE_PATTERNS)
                               then btype_message btype else dtype_message dtype))))
   \<and> (\<forall>k \<in> set (map fst FILE_PATTERNS). sublist (quote k) (dtype_message dtype))
   \<and> sublist (quote ''storage'') (btype_message btype)
   \<and> sublist (quote ''hybrid'') (btype_message btype)"
proof -
  have keys: "map fst FILE_PATTERNS =
     [''fmm_as_awards'', ''fmm_bids'', ''fmm_offers'', ''ifm_as_awards'', ''ifm_bids'',
      ''ifm_offers'', ''energy_awards'', ''state_of_charge'']"
    by (simp add: FILE_PATTERNS_def)
  have none: "map_of FILE_PATTERNS dtype = None \<longleftrightarrow> dtype \<notin> set (map fst FILE_PATTERNS)"
    by (simp add: map_of_eq_None_iff)
  have a: "collate pl fs dtype btype = ([], Inl (ValueError (dtype_message dtype)))"
    if "dtype \<notin> set (map fst FILE_PATTERNS)"
    using that none by (simp add: collate_def)
  have b: "collate pl fs dtype btype =
          ([], Inl (ValueError (if dtype \<in> set (map fst FILE_PATTERNS)
                               then btype_message btype else dtype_message dtype)))"
    if "btype \<noteq> ''storage'' \<and> btype \<noteq> ''hybrid''"
  proof (cases "map_of FILE_PATTERNS dtype")
    case None
    then show ?thesis using none by (simp add: collate_def)
  next
    case (Some pattern)
    then have "dtype \<in> set (map fst FILE_PATTERNS)" using none by simp
    then show ?thesis using Some that by (simp add: collate_def)
  qed
  show ?thesis
    using keys a b dtype_message_names btype_message_names by blast
qed

text \<open>
  The theorem at the unknown metric kind \<^verbatim>\<open>soc\<close> and at the unknown resource kind
  \<^verbatim>\<open>solar\<close>, on a file system that holds a matching file.
\<close>

theorem collate_configuration_errors_witness:
  "''soc'' \<notin> set (map fst FILE_PATTERNS)
   \<and> collate sample_polars (storage_only [(''20220101_Total State of Charge.csv'', [csv_line 1 ''IFM'' 2])])
        ''soc'' ''storage'' = ([], Inl (ValueError (dtype_message ''soc'')))
   \<and> ''solar'' \<noteq> ''storage'' \<and> ''solar'' \<noteq> ''hybrid''
   \<and> collate sample_polars (storage_only [(''20220101_Total State of Charge.csv'', [csv_line 1 ''IFM'' 2])])
        ''state_of_charge'' ''solar'' = ([], Inl (ValueError (btype_message ''solar'')))
   \<and> sublist (quote ''state_of_charge'') (dtype_message ''soc'')"
proof -
  have k: "''soc'' \<notin> set (map fst FILE_PATTERNS)"
    by (simp add: FILE_PATTERNS_def)
  have m: "''state_of_charge'' \<in> set (map fst FILE_PATTERNS)"
    by (simp add: FILE_PATTERNS_def)
  have s: "''solar'' \<noteq> ''storage'' \<and> ''solar'' \<noteq> ''hybrid''"
    by simp
  let ?fs = "storage_only [(''20220101_Total State of Charge.csv'', [csv_line 1 ''IFM'' 2])]"
  have d: "collate sample_polars ?fs ''soc'' ''storage'' = ([], Inl (ValueError (dtype_message ''soc'')))"
    using collate_configuration_errors[where dtype = "''soc''" and fs = ?fs
        and btype = "''storage''" and pl = sample_polars] k by blast
  have "collate sample_polars ?fs ''state_of_charge'' ''solar'' =
          ([], Inl (ValueError (if ''state_of_charge'' \<in> set (map fst FILE_PATTERNS)
                               then btype_message ''solar''
                               else dtype_message ''state_of_charge'')))"
    using collate_configuration_errors[where dtype = "''state_of_charge''" and fs = ?fs
        and btype = "''solar''" and pl = sample_polars] s by blast
  then have b: "collate sample_polars ?fs ''state_of_charge'' ''solar''
                  = ([], Inl (ValueError (btype_message ''solar'')))"
    using m by simp
  have n: "sublist (quote ''state_of_charge'') (dtype_message ''soc'')"
    using collate_configuration_errors[where dtype = "''soc''" and fs = ?fs
        and btype = "''storage''" and pl = sample_polars] m by blast
  show ?thesis
    using k s d b n by blast
qed

subsection \<open>No matching file\<close>

lemma collate_listing:
  assumes "map_of FILE_PATTERNS dtype = Some pattern"
    and "btype = ''storage'' \<or> btype = ''hybrid''"
    and "selected_dir fs btype = Some entries"
  shows "snd (collate pl fs dtype btype) =
     (case concat_vertical
             (map (\<lambda>(name, csv). format_frame pl (series_name_expr pl dtype) (enum_of dtype) (dim_of dtype) csv)
                  (filter (\<lambda>(name, csv). re_match pattern name) entries)) of
        Inl e \<Rightarrow> Inl e
      | Inr lf \<Rightarrow> Inr (sort_frame [''timestamp'', dim_of dtype] lf))"
proof -
  have by_eq: "(if dtype = ''energy_awards'' \<or> dtype = ''state_of_charge''
        then [''timestamp'', ''market''] else [''timestamp'', ''service''])
        = [''timestamp'', dim_of dtype]"
    by (simp add: dim_of_def)
  show ?thesis
    using assms getattr_formatter[OF assms(1)]
    unfolding collate_def by_eq
    by (auto simp: selected_dir_def Let_def split: if_splits sum.splits)
qed

text \<open>
  Claim C10. For a recognized metric kind and resource kind whose root directory holds
  no entry matching the metric's pattern, \<^verbatim>\<open>collate\<close> raises the \<^verbatim>\<open>ValueError\<close> of
  concatenating an empty list; it returns no frame. A root directory that does not exist
  makes it raise as well.
\<close>

theorem collate_no_matching_file_raises:
  assumes "map_of FILE_PATTERNS dtype = Some pattern"
    and "btype = ''storage'' \<or> btype = ''hybrid''"
  shows "(selected_dir fs btype = Some entries
            \<and> (\<forall>(name, csv) \<in> set entries. \<not> re_match pattern name) \<longrightarrow>
          snd (collate pl fs dtype btype) = Inl (ValueError ''cannot concat empty list''))
    \<and> (selected_dir fs btype = None \<longrightarrow> (\<exists>e. snd (collate pl fs dtype btype) = Inl e))"
proof -
  have a: "snd (collate pl fs dtype btype) = Inl (ValueError ''cannot concat empty list'')"
    if d: "selected_dir fs btype = Some entries"
      and n: "\<forall>(name, csv) \<in> set entries. \<not> re_match pattern name"
  proof -
    have "filter (\<lambda>(name, csv). re_match pattern name) entries = []"
      using n by (auto simp: filter_empty_conv)
    then show ?thesis
      using collate_listing[OF assms d] by (simp add: concat_vertical_def)
  qed
  have b: "\<exists>e. snd (collate pl fs dtype btype) = Inl e" if "selected_dir fs btype = None"
    using that assms getattr_formatter[OF assms(1)]
    by (auto simp: collate_def selected_dir_def split: if_splits)
  show ?thesis using a b by blast
qed

text \<open>
  The theorem at the metric kind \<^verbatim>\<open>energy_awards\<close> on a storage directory whose only
  file belongs to another metric.
\<close>

theorem collate_no_matching_file_raises_witness:
  "map_of FILE_PATTERNS ''energy_awards'' = Some (date_prefixed ''_Total Energy Awards.csv'')
   \<and> selected_dir (storage_only [(''20220101_Total State of Charge.csv'', [csv_line 1 ''IFM'' 2])])
        ''storage'' = Some [(''20220101_Total State of Charge.csv'', [csv_line 1 ''IFM'' 2])]
   \<and> \<not> re_match (date_prefixed ''_Total Energy Awards.csv'') ''20220101_Total State of Charge.csv''
   \<and> snd (collate sample_polars (storage_only [(''20220101_Total State of Charge.csv'', [csv_line 1 ''IFM'' 2])])
        ''energy_awards'' ''storage'') = Inl (ValueError ''cannot concat empty list'')"
proof -
  have p: "map_of FILE_PATTERNS ''energy_awards'' = Some (date_prefixed ''_Total Energy Awards.csv'')"
    by (simp add: FILE_PATTERNS_def)
  have d: "selected_dir (storage_only [(''20220101_Total State of Charge.csv'', [csv_line 1 ''IFM'' 2])])
        ''storage'' = Some [(''20220101_Total State of Charge.csv'', [csv_line 1 ''IFM'' 2])]"
    by (simp add: selected_dir_def storage_only_def)
  have n: "\<not> re_match (date_prefixed ''_Total Energy Awards.csv'') ''20220101_Total State of Charge.csv''"
    by (simp add: date_prefixed_def eval_nat_numeral)
  have a: "\<forall>(name, csv) \<in> set [(''20220101_Total State of Charge.csv'', [csv_line 1 ''IFM'' 2])].
             \<not> re_match (date_prefixed ''_Total Energy Awards.csv'') name"
    using n by simp
  have b: "''storage'' = ''storage'' \<or> ''storage'' = ''hybrid''"
    by simp
  show ?thesis
    using p d n a collate_no_matching_file_raises[OF p b,
        where fs = "storage_only [(''20220101_Total State of Charge.csv'', [csv_line 1 ''IFM'' 2])]"
          and entries = "[(''20220101_Total State of Charge.csv'', [csv_line 1 ''IFM'' 2])]"
          and pl = sample_polars]
    by blast
qed

subsection \<open>The sample library\<close>

lemma sample_lowercase:
  "to_lowercase sample_polars ''Reg Up'' = ''reg up''"
  "to_lowercase sample_polars ''Self Schedule'' = ''self schedule''"
  "to_lowercase sample_polars ''($0, $15]'' = ''($0, $15]''"
  "to_lowercase sample_polars ''IFM'' = ''ifm''"
  "to_lowercase sample_polars ''RTD'' = ''rtd''"
  "to_lowercase sample_polars ''HASP'' = ''hasp''"
  "to_lowercase sample_polars ''Bogus'' = ''bogus''"
  "to_lowercase sample_polars ''Non Spin Up'' = ''non spin up''"
  by (simp_all add: sample_polars_def ascii_lower_char_def)

lemma sample_listed: "listed_failures sample_polars failures = take 1 failures"
  by (simp add: sample_polars_def)

lemma sample_underscore:
  "str_replace_whitespace ''reg up'' = ''reg_up''"
  "str_replace_whitespace ''($0, $15]'' = ''($0,_$15]''"
  "str_replace_whitespace ''ifm'' = ''ifm''"
  "str_replace_whitespace ''bogus'' = ''bogus''"
  "str_replace_whitespace ''non spin up'' = ''non_spin up''"
  by (simp_all add: whitespace_length_def WHITE_SPACE_def)

subsection \<open>Normalisation of the series name\<close>

text \<open>
  Claim C4, as the code has it. The formatter of every metric kind lower-cases the series
  name and casts the result into the metric's enumeration, and the frame yields a table
  exactly when every rewritten name lies in the enumeration; the dimension column is
  then the rewritten names. The step between differs: the formatters of
  \<^verbatim>\<open>energy_awards\<close>, \<^verbatim>\<open>ifm_as_awards\<close> and \<^verbatim>\<open>fmm_as_awards\<close> replace the first whitespace
  character by an underscore, those of the five other kinds map the value
  \<^verbatim>\<open>self schedule\<close> to \<^verbatim>\<open>self_schedule\<close> and leave any other value as it is.
\<close>

theorem series_name_normalization_by_kind:
  assumes "map_of FILE_PATTERNS dtype = Some pattern"
    and "getattr pl (''format_'' @ dtype) = Some formatter"
  shows "(dtype \<in> set [''energy_awards'', ''ifm_as_awards'', ''fmm_as_awards''] \<longrightarrow>
           (if \<forall>r \<in> set csv. str_replace_whitespace (to_lowercase pl (csv_series_name r))
                                 \<in> set (enum_of dtype)
            then formatter csv
                   = Inr \<lparr>dim_column = dim_of dtype, categories = enum_of dtype,
                          table_rows = map (\<lambda>r. \<lparr>mr_timestamp = csv_datetime r,
                              mr_dimension = str_replace_whitespace
                                               (to_lowercase pl (csv_series_name r)),
                              mr_volume = csv_value r\<rparr>) csv\<rparr>
            else isl (formatter csv)))
    \<and> (dtype \<notin> set [''energy_awards'', ''ifm_as_awards'', ''fmm_as_awards''] \<longrightarrow>
           (if \<forall>r \<in> set csv. replace_value ''self schedule'' ''self_schedule''
                                   (to_lowercase pl (csv_series_name r)) \<in> set (enum_of dtype)
            then formatter csv
                   = Inr \<lparr>dim_column = dim_of dtype, categories = enum_of dtype,
                          table_rows = map (\<lambda>r. \<lparr>mr_timestamp = csv_datetime r,
                              mr_dimension = replace_value ''self schedule'' ''self_schedule''
                                               (to_lowercase pl (csv_series_name r)),
                              mr_volume = csv_value r\<rparr>) csv\<rparr>
            else isl (formatter csv)))"
proof -
  let ?awards = "set [''energy_awards'', ''ifm_as_awards'', ''fmm_as_awards'']"
  have fmt: "formatter = format_frame pl (series_name_expr pl dtype) (enum_of dtype) (dim_of dtype)"
    using getattr_formatter[OF assms(1)] assms(2) by simp
  have gen: "if \<forall>r \<in> set csv. expr (csv_series_name r) \<in> set (enum_of dtype)
     then format_frame pl expr (enum_of dtype) (dim_of dtype) csv
            = Inr \<lparr>dim_column = dim_of dtype, categories = enum_of dtype,
                   table_rows = map (\<lambda>r. \<lparr>mr_timestamp = csv_datetime r,
                       mr_dimension = expr (csv_series_name r),
                       mr_volume = csv_value r\<rparr>) csv\<rparr>
     else isl (format_frame pl expr (enum_of dtype) (dim_of dtype) csv)" for expr
    using format_frame_returns[of csv expr "enum_of dtype" pl "dim_of dtype"]
      format_frame_fails[of pl expr "enum_of dtype" "dim_of dtype" csv]
    by auto
  have a: "series_name_expr pl dtype = (\<lambda>s. str_replace_whitespace (to_lowercase pl s))"
    if "dtype \<in> ?awards"
    using that by (simp add: series_name_expr_def lower_underscore_def fun_eq_iff)
  have b: "series_name_expr pl dtype
             = (\<lambda>s. replace_value ''self schedule'' ''self_schedule'' (to_lowercase pl s))"
    if "dtype \<notin> ?awards"
    using that by (simp add: series_name_expr_def lower_self_schedule_def fun_eq_iff)
  show ?thesis
  proof (intro conjI impI)
    assume "dtype \<in> ?awards"
    from a[OF this] show "if \<forall>r \<in> set csv. str_replace_whitespace (to_lowercase pl (csv_series_name r))
                                 \<in> set (enum_of dtype)
            then formatter csv
                   = Inr \<lparr>dim_column = dim_of dtype, categories = enum_of dtype,
                          table_rows = map (\<lambda>r. \<lparr>mr_timestamp = csv_datetime r,
                              mr_dimension = str_replace_whitespace
                                               (to_lowercase pl (csv_series_name r)),
                              mr_volume = csv_value r\<rparr>) csv\<rparr>
            else isl (formatter csv)"
      unfolding fmt using gen[of "\<lambda>s. str_replace_whitespace (to_lowercase pl s)"] by simp
  next
    assume "dtype \<notin> ?awards"
    from b[OF this] show "if \<forall>r \<in> set csv. replace_value ''self schedule'' ''self_schedule''
                                   (to_lowercase pl (csv_series_name r)) \<in> set (enum_of dtype)
            then formatter csv
                   = Inr \<lparr>dim_column = dim_of dtype, categories = enum_of dtype,
                          table_rows = map (\<lambda>r. \<lparr>mr_timestamp = csv_datetime r,
                              mr_dimension = replace_value ''self schedule'' ''self_schedule''
                                               (to_lowercase pl (csv_series_name r)),
                              mr_volume = csv_value r\<rparr>) csv\<rparr>
            else isl (formatter csv)"
      unfolding fmt
      using gen[of "\<lambda>s. replace_value ''self schedule'' ''self_schedule'' (to_lowercase pl s)"]
      by simp
  qed
qed

text \<open>
  The theorem at the metric kind \<^verbatim>\<open>ifm_as_awards\<close> on a file with the series
  \<^verbatim>\<open>Reg Up\<close>, and at the metric kind \<^verbatim>\<open>ifm_bids\<close> on a file of two lines, one of them the
  self-schedule series.
\<close>

theorem series_name_normalization_by_kind_witness:
  "map_of FILE_PATTERNS ''ifm_as_awards'' = Some (date_prefixed ''_IFM AS Awards.csv'')
   \<and> getattr sample_polars (''format_'' @ ''ifm_as_awards'')
       = Some (format_ifm_as_awards sample_polars)
   \<and> format_ifm_as_awards sample_polars [csv_line 1 ''Reg Up'' 2]
       = Inr \<lparr>dim_column = ''service'', categories = AS_ENUM,
              table_rows = [\<lparr>mr_timestamp = 1, mr_dimension = ''reg_up'', mr_volume = 2\<rparr>]\<rparr>
   \<and> map_of FILE_PATTERNS ''ifm_bids''
       = Some (date_prefixed ''_IFM Energy Bid In Capacity - Charge.csv'')
   \<and> getattr sample_polars (''format_'' @ ''ifm_bids'') = Some (format_ifm_bids sample_polars)
   \<and> format_ifm_bids sample_polars [csv_line 1 ''($0, $15]'' 2, csv_line 1 ''Self Schedule'' 3]
       = Inr \<lparr>dim_column = ''service'', categories = BID_ENUM,
              table_rows = [\<lparr>mr_timestamp = 1, mr_dimension = ''($0, $15]'', mr_volume = 2\<rparr>,
                            \<lparr>mr_timestamp = 1, mr_dimension = ''self_schedule'', mr_volume = 3\<rparr>]\<rparr>"
proof -
  have p: "map_of FILE_PATTERNS ''ifm_as_awards'' = Some (date_prefixed ''_IFM AS Awards.csv'')"
    by (simp add: FILE_PATTERNS_def)
  have g: "getattr sample_polars (''format_'' @ ''ifm_as_awards'')
             = Some (format_ifm_as_awards sample_polars)"
    by (simp add: getattr_def)
  have q: "map_of FILE_PATTERNS ''ifm_bids''
             = Some (date_prefixed ''_IFM Energy Bid In Capacity - Charge.csv'')"
    by (simp add: FILE_PATTERNS_def)
  have h: "getattr sample_polars (''format_'' @ ''ifm_bids'') = Some (format_ifm_bids sample_polars)"
    by (simp add: getattr_def)
  have k1: "''ifm_as_awards'' \<in> set [''energy_awards'', ''ifm_as_awards'', ''fmm_as_awards'']"
    by simp
  have k2: "''ifm_bids'' \<notin> set [''energy_awards'', ''ifm_as_awards'', ''fmm_as_awards'']"
    by simp
  have in1: "\<forall>r \<in> set [csv_line 1 ''Reg Up'' 2].
      str_replace_whitespace (to_lowercase sample_polars (csv_series_name r))
        \<in> set (enum_of ''ifm_as_awards'')"
    by (simp add: csv_line_def sample_lowercase sample_underscore enum_of_def AS_ENUM_def
        del: str_replace_whitespace.simps)
  have in2: "\<forall>r \<in> set [csv_line 1 ''($0, $15]'' 2, csv_line 1 ''Self Schedule'' 3].
      replace_value ''self schedule'' ''self_schedule''
        (to_lowercase sample_polars (csv_series_name r)) \<in> set (enum_of ''ifm_bids'')"
    by (simp add: csv_line_def sample_lowercase replace_value_def enum_of_def BID_ENUM_def)
  have r1: "format_ifm_as_awards sample_polars [csv_line 1 ''Reg Up'' 2]
       = Inr \<lparr>dim_column = ''service'', categories = AS_ENUM,
              table_rows = [\<lparr>mr_timestamp = 1, mr_dimension = ''reg_up'', mr_volume = 2\<rparr>]\<rparr>"
    using series_name_normalization_by_kind[OF p g, where csv = "[csv_line 1 ''Reg Up'' 2]",
        THEN conjunct1, rule_format, OF k1] in1
    by (simp add: csv_line_def sample_lowercase sample_underscore enum_of_def dim_of_def
        del: str_replace_whitespace.simps)
  have r2: "format_ifm_bids sample_polars [csv_line 1 ''($0, $15]'' 2, csv_line 1 ''Self Schedule'' 3]
       = Inr \<lparr>dim_column = ''service'', categories = BID_ENUM,
              table_rows = [\<lparr>mr_timestamp = 1, mr_dimension = ''($0, $15]'', mr_volume = 2\<rparr>,
                            \<lparr>mr_timestamp = 1, mr_dimension = ''self_schedule'', mr_volume = 3\<rparr>]\<rparr>"
    using series_name_normalization_by_kind[OF q h,
        where csv = "[csv_line 1 ''($0, $15]'' 2, csv_line 1 ''Self Schedule'' 3]",
        THEN conjunct2, rule_format, OF k2] in2
    by (simp add: csv_line_def sample_lowercase replace_value_def enum_of_def dim_of_def)
  show ?thesis using p g r1 q h r2 by blast
qed

text \<open>
  Claim C4 as stated fails for the bid formatter: it keeps the whitespace of a bid range
  and parses it. Lower-casing and replacing the whitespace, as the awards formatters do,
  gives a value outside the enumeration of bid ranges. The awards formatters themselves
  replace the first whitespace character only.
\<close>

theorem normalization_differs_counterexample:
  "format_ifm_bids sample_polars [csv_line 1 ''($0, $15]'' 2]
     = Inr \<lparr>dim_column = ''service'', categories = BID_ENUM,
            table_rows = [\<lparr>mr_timestamp = 1, mr_dimension = ''($0, $15]'', mr_volume = 2\<rparr>]\<rparr>
   \<and> lower_underscore sample_polars ''($0, $15]'' = ''($0,_$15]''
   \<and> ''($0,_$15]'' \<notin> set BID_ENUM
   \<and> lower_underscore sample_polars ''Non Spin Up'' = ''non_spin up''
   \<and> format_ifm_as_awards sample_polars [csv_line 1 ''Reg Up'' 2]
     = Inr \<lparr>dim_column = ''service'', categories = AS_ENUM,
            table_rows = [\<lparr>mr_timestamp = 1, mr_dimension = ''reg_up'', mr_volume = 2\<rparr>]\<rparr>"
  by (simp add: formatter_defs format_frame_def cast_enum_def csv_line_def enum_defs
      lower_self_schedule_def lower_underscore_def replace_value_def sample_lowercase
      sample_underscore del: str_replace_whitespace.simps)

subsection \<open>Values outside the enumeration\<close>

text \<open>
  Claim C5, as the code has it. For every metric kind, a file with a line whose rewritten
  series name lies outside the metric's enumeration makes the frame fail, when it is
  run, with the cast error of polars. The error lists failing values as the library
  chooses them; where it lists failing values only, it lists rewritten names of the file
  and no value of the enumeration. A file without such a line yields a table with one row
  per line, in order, each with its rewritten series name: no line is dropped or
  altered.
\<close>

theorem out_of_enum_row_fails_parse:
  assumes "map_of FILE_PATTERNS dtype = Some pattern"
    and "getattr pl (''format_'' @ dtype) = Some formatter"
  shows "((\<exists>r \<in> set csv. series_name_expr pl dtype (csv_series_name r) \<notin> set (enum_of dtype)) \<longrightarrow>
           formatter csv = Inl (InvalidOperationError (listed_failures pl
             (filter (\<lambda>s. s \<notin> set (enum_of dtype))
                (map (\<lambda>r. series_name_expr pl dtype (csv_series_name r)) csv)))))
    \<and> ((\<forall>r \<in> set csv. series_name_expr pl dtype (csv_series_name r) \<in> set (enum_of dtype)) \<longrightarrow>
           formatter csv = Inr (parsed_table pl dtype csv))
    \<and> ((\<forall>failures. set (listed_failures pl failures) \<subseteq> set failures)
          \<and> formatter csv = Inl (InvalidOperationError listed) \<longrightarrow>
           set listed \<inter> set (enum_of dtype) = {}
           \<and> set listed \<subseteq> (\<lambda>r. series_name_expr pl dtype (csv_series_name r)) ` set csv)"
proof -
  let ?names = "map (\<lambda>r. series_name_expr pl dtype (csv_series_name r)) csv"
  let ?failures = "filter (\<lambda>s. s \<notin> set (enum_of dtype)) ?names"
  have fmt: "formatter = format_frame pl (series_name_expr pl dtype) (enum_of dtype) (dim_of dtype)"
    using getattr_formatter[OF assms(1)] assms(2) by simp
  have a: "formatter csv = Inl (InvalidOperationError (listed_failures pl ?failures))"
    if "\<exists>r \<in> set csv. series_name_expr pl dtype (csv_series_name r) \<notin> set (enum_of dtype)"
    unfolding fmt using format_frame_error[OF that] .
  have b: "formatter csv = Inr (parsed_table pl dtype csv)"
    if "\<forall>r \<in> set csv. series_name_expr pl dtype (csv_series_name r) \<in> set (enum_of dtype)"
    unfolding fmt using format_frame_returns[OF that]
    by (simp add: parsed_table_def formatted_row_def)
  have c: "set listed \<inter> set (enum_of dtype) = {}
           \<and> set listed \<subseteq> (\<lambda>r. series_name_expr pl dtype (csv_series_name r)) ` set csv"
    if h: "(\<forall>failures. set (listed_failures pl failures) \<subseteq> set failures)
          \<and> formatter csv = Inl (InvalidOperationError listed)"
  proof -
    have "isl (formatter csv)" using h by simp
    then have "\<exists>r \<in> set csv. series_name_expr pl dtype (csv_series_name r) \<notin> set (enum_of dtype)"
      unfolding fmt using format_frame_fails by blast
    from a[OF this] have "listed = listed_failures pl ?failures" using h by simp
    then have "set listed \<subseteq> set ?failures" using h by blast
    then show ?thesis by auto
  qed
  show ?thesis using a b c by blast
qed

text \<open>
  The theorem at the metric kind \<^verbatim>\<open>state_of_charge\<close> on a file whose second line
  names a market outside the enumeration, and on the file of its first line alone.
\<close>

theorem out_of_enum_row_fails_parse_witness:
  "map_of FILE_PATTERNS ''state_of_charge'' = Some (date_prefixed ''_Total State of Charge.csv'')
   \<and> getattr sample_polars (''format_'' @ ''state_of_charge'')
       = Some (format_state_of_charge sample_polars)
   \<and> series_name_expr sample_polars ''state_of_charge'' (csv_series_name (csv_line 1 ''HASP'' 3))
       = ''hasp''
   \<and> ''hasp'' \<notin> set (enum_of ''state_of_charge'')
   \<and> format_state_of_charge sample_polars [csv_line 1 ''IFM'' 2, csv_line 1 ''HASP'' 3]
       = Inl (InvalidOperationError [''hasp''])
   \<and> (\<forall>failures. set (listed_failures sample_polars failures) \<subseteq> set failures)
   \<and> set [''hasp''] \<inter> set (enum_of ''state_of_charge'') = {}
   \<and> format_state_of_charge sample_polars [csv_line 1 ''IFM'' 2]
       = Inr \<lparr>dim_column = ''market'', categories = SOC_ENUM,
              table_rows = [\<lparr>mr_timestamp = 1, mr_dimension = ''ifm'', mr_volume = 2\<rparr>]\<rparr>"
proof -
  let ?bad = "[csv_line 1 ''IFM'' 2, csv_line 1 ''HASP'' 3]"
  let ?good = "[csv_line 1 ''IFM'' 2]"
  have p: "map_of FILE_PATTERNS ''state_of_charge''
             = Some (date_prefixed ''_Total State of Charge.csv'')"
    by (simp add: FILE_PATTERNS_def)
  have g: "getattr sample_polars (''format_'' @ ''state_of_charge'')
             = Some (format_state_of_charge sample_polars)"
    by (simp add: getattr_def)
  have n: "series_name_expr sample_polars ''state_of_charge'' (csv_series_name (csv_line 1 ''HASP'' 3))
             = ''hasp''"
    and m: "series_name_expr sample_polars ''state_of_charge'' (csv_series_name (csv_line 1 ''IFM'' 2))
             = ''ifm''"
    by (simp_all add: series_name_expr_def lower_self_schedule_def replace_value_def
        sample_lowercase csv_line_def)
  have o: "''hasp'' \<notin> set (enum_of ''state_of_charge'')"
    and i: "''ifm'' \<in> set (enum_of ''state_of_charge'')"
    by (simp_all add: enum_of_def SOC_ENUM_def)
  note inst = out_of_enum_row_fails_parse[OF p g]
  have ex: "\<exists>r \<in> set ?bad. series_name_expr sample_polars ''state_of_charge'' (csv_series_name r)
              \<notin> set (enum_of ''state_of_charge'')"
    using n o by simp
  have "format_state_of_charge sample_polars ?bad
          = Inl (InvalidOperationError (listed_failures sample_polars
             (filter (\<lambda>s. s \<notin> set (enum_of ''state_of_charge''))
                (map (\<lambda>r. series_name_expr sample_polars ''state_of_charge'' (csv_series_name r))
                   ?bad))))"
    using inst[where csv = ?bad, THEN conjunct1] ex by blast
  then have bad: "format_state_of_charge sample_polars ?bad = Inl (InvalidOperationError [''hasp''])"
    using n m o i by (simp add: sample_listed)
  have al: "\<forall>r \<in> set ?good. series_name_expr sample_polars ''state_of_charge'' (csv_series_name r)
              \<in> set (enum_of ''state_of_charge'')"
    using m i by simp
  have "format_state_of_charge sample_polars ?good = Inr (parsed_table sample_polars ''state_of_charge'' ?good)"
    using inst[where csv = ?good, THEN conjunct2, THEN conjunct1] al by blast
  then have good: "format_state_of_charge sample_polars ?good
       = Inr \<lparr>dim_column = ''market'', categories = SOC_ENUM,
              table_rows = [\<lparr>mr_timestamp = 1, mr_dimension = ''ifm'', mr_volume = 2\<rparr>]\<rparr>"
    using m by (simp add: parsed_table_def formatted_row_def dim_of_def enum_of_def csv_line_def)
  have sub: "\<forall>failures. set (listed_failures sample_polars failures) \<subseteq> set failures"
    by (simp add: sample_listed set_take_subset)
  have dis: "set [''hasp''] \<inter> set (enum_of ''state_of_charge'') = {}"
    using inst[where csv = ?bad and listed = "[''hasp'']", THEN conjunct2, THEN conjunct2]
      sub bad by blast
  show ?thesis using p g n o bad sub dis good by blast
qed

text \<open>
  Claim C5 as stated fails in what the error names: on a file whose one line has a
  series unknown to the ancillary-service enumeration, the error lists the rewritten
  name of that line and none of the four values of the enumeration.
\<close>

theorem cast_error_without_domain_counterexample:
  "format_ifm_as_awards sample_polars [csv_line 1 ''Bogus'' 2]
     = Inl (InvalidOperationError [''bogus''])
   \<and> set [''bogus''] \<inter> set AS_ENUM = {}"
  by (simp add: format_ifm_as_awards_def format_frame_def cast_enum_def csv_line_def
      AS_ENUM_def lower_underscore_def sample_lowercase sample_underscore sample_listed
      del: str_replace_whitespace.simps)

subsection \<open>Order of the input files\<close>

lemma mset_concat_map_cong:
  assumes "mset xs = mset ys"
  shows "mset (concat (map f xs)) = mset (concat (map f ys))"
proof -
  have "mset (concat (map f zs)) = sum_mset (image_mset (\<lambda>z. mset (f z)) (mset zs))" for zs
    by (induction zs) auto
  then show ?thesis using assms by simp
qed

lemma map_sort_key: "map f (sort_key f xs) = sort (map f xs)"
  by (rule properties_for_sort[symmetric]) simp_all

lemma sort_key_perm_keys:
  assumes "mset xs = mset ys"
  shows "map f (sort_key f xs) = map f (sort_key f ys)"
proof -
  have "sort (map f xs) = sort (map f ys)"
    by (rule properties_for_sort) (simp_all add: assms)
  then show ?thesis by (simp add: map_sort_key)
qed

lemma sort_key_perm_inj:
  assumes "mset xs = mset ys" and "inj_on f (set xs)"
  shows "sort_key f xs = sort_key f ys"
proof -
  have s: "set ys = set xs" using assms(1) by (metis set_mset_mset)
  have "inj_on f (set (sort_key f xs) \<union> set (sort_key f ys))"
    using assms(2) s by simp
  then show ?thesis
    using sort_key_perm_keys[OF assms(1), of f] by (simp add: inj_on_map_eq_map)
qed

lemma foldl_vstack_Inr:
  assumes "\<forall>u \<in> set us. dim_column u = dim_column t \<and> categories u = categories t"
  shows "foldl vstack (Inr t) (map Inr us)
           = Inr (t\<lparr>table_rows := table_rows t @ concat (map table_rows us)\<rparr>)"
  using assms
proof (induction us arbitrary: t)
  case Nil
  then show ?case by simp
next
  case (Cons u us)
  have "foldl vstack (Inr t) (map Inr (u # us))
          = foldl vstack (Inr (t\<lparr>table_rows := table_rows t @ table_rows u\<rparr>)) (map Inr us)"
    using Cons.prems by simp
  also have "\<dots> = Inr (t\<lparr>table_rows := table_rows t @ table_rows u\<rparr>
                        \<lparr>table_rows := table_rows (t\<lparr>table_rows := table_rows t @ table_rows u\<rparr>)
                                        @ concat (map table_rows us)\<rparr>)"
    using Cons.prems by (intro Cons.IH) simp
  finally show ?case by simp
qed

lemma format_frame_Inr_eq:
  assumes "format_frame pl (series_name_expr pl dtype) (enum_of dtype) (dim_of dtype) csv = Inr t"
  shows "t = parsed_table pl dtype csv"
proof -
  note f = format_frame_Inr(1-3)[OF assms]
  show ?thesis using f by (cases t) (simp add: parsed_table_def)
qed

lemma concat_vertical_parseable:
  assumes "files \<noteq> []"
    and "\<forall>csv \<in> set files. \<exists>t. format_frame pl (series_name_expr pl dtype) (enum_of dtype) (dim_of dtype) csv = Inr t"
  shows "concat_vertical (map (format_frame pl (series_name_expr pl dtype) (enum_of dtype) (dim_of dtype)) files)
    = Inr (Inr \<lparr>dim_column = dim_of dtype, categories = enum_of dtype,
               table_rows = concat (map (map (formatted_row pl dtype)) files)\<rparr>)"
proof -
  let ?fmt = "format_frame pl (series_name_expr pl dtype) (enum_of dtype) (dim_of dtype)"
  have each: "?fmt csv = Inr (parsed_table pl dtype csv)" if "csv \<in> set files" for csv
    using assms(2) that format_frame_Inr_eq by blast
  then have frames: "map ?fmt files = map Inr (map (parsed_table pl dtype) files)"
    by simp
  obtain c cs where files: "files = c # cs" using assms(1) by (cases files) auto
  have "concat_vertical (map ?fmt files)
          = Inr (foldl vstack (Inr (parsed_table pl dtype c)) (map Inr (map (parsed_table pl dtype) cs)))"
    unfolding frames by (simp add: files concat_vertical_def)
  also have "foldl vstack (Inr (parsed_table pl dtype c)) (map Inr (map (parsed_table pl dtype) cs))
          = Inr ((parsed_table pl dtype c)\<lparr>table_rows := table_rows (parsed_table pl dtype c)
                    @ concat (map table_rows (map (parsed_table pl dtype) cs))\<rparr>)"
    by (rule foldl_vstack_Inr) (simp add: parsed_table_def)
  finally show ?thesis
    by (simp add: files parsed_table_def comp_def)
qed

lemma collate_parseable:
  assumes "map_of FILE_PATTERNS dtype = Some pattern"
    and "btype = ''storage'' \<or> btype = ''hybrid''"
    and "selected_dir fs btype = Some entries"
    and "getattr pl (''format_'' @ dtype) = Some formatter"
    and "\<forall>(name, csv) \<in> set entries. re_match pattern name \<longrightarrow> (\<exists>t. formatter csv = Inr t)"
    and "\<exists>(name, csv) \<in> set entries. re_match pattern name"
  shows "snd (collate pl fs dtype btype) =
           Inr (Inr \<lparr>dim_column = dim_of dtype, categories = enum_of dtype,
                      table_rows = sort_key (row_key (enum_of dtype))
                        (concat (map (\<lambda>(name, csv). map (formatted_row pl dtype) csv)
                           (filter (\<lambda>(name, csv). re_match pattern name) entries)))\<rparr>)"
proof -
  let ?fmt = "format_frame pl (series_name_expr pl dtype) (enum_of dtype) (dim_of dtype)"
  let ?matching = "filter (\<lambda>(name, csv). re_match pattern name) entries"
  have fmt: "formatter = ?fmt"
    using getattr_formatter[OF assms(1)] assms(4) by simp
  have frames: "map (\<lambda>(name, csv). ?fmt csv) ?matching = map ?fmt (map snd ?matching)"
    by (simp add: case_prod_unfold comp_def)
  have ne: "map snd ?matching \<noteq> []"
    using assms(6) by (auto simp: filter_empty_conv)
  have ok: "\<forall>csv \<in> set (map snd ?matching). \<exists>t. ?fmt csv = Inr t"
    using assms(5) unfolding fmt by auto
  have rows: "concat (map (map (formatted_row pl dtype)) (map snd ?matching))
                = concat (map (\<lambda>(name, csv). map (formatted_row pl dtype) csv) ?matching)"
    by (simp add: case_prod_unfold comp_def)
  show ?thesis
    unfolding collate_listing[OF assms(1-3)] frames concat_vertical_parseable[OF ne ok] rows
    by (simp add: sort_frame_def)
qed

text \<open>
  Claim C6, as the code has it. Let the selected directory list the same files in two
  orders, every matching file parseable and at least one matching. Both runs then return
  a table; the two tables hold the same rows with the same multiplicities, sorted by
  (timestamp, dimension), with the same sequence of sort keys. They are the same table
  whenever no two different rows share a sort key.
\<close>

theorem collate_order_independent_up_to_ties:
  assumes "map_of FILE_PATTERNS dtype = Some pattern"
    and "btype = ''storage'' \<or> btype = ''hybrid''"
    and "selected_dir fs btype = Some entries"
    and "selected_dir fs' btype = Some entries'"
    and "mset entries' = mset entries"
    and "getattr pl (''format_'' @ dtype) = Some formatter"
    and "\<forall>(name, csv) \<in> set entries. re_match pattern name \<longrightarrow> (\<exists>t. formatter csv = Inr t)"
    and "\<exists>(name, csv) \<in> set entries. re_match pattern name"
  shows "\<exists>t t'. snd (collate pl fs dtype btype) = Inr (Inr t)
           \<and> snd (collate pl fs' dtype btype) = Inr (Inr t')
           \<and> dim_column t' = dim_column t \<and> categories t' = categories t
           \<and> mset (table_rows t') = mset (table_rows t)
           \<and> sorted (map (row_key (categories t)) (table_rows t))
           \<and> map (row_key (categories t)) (table_rows t')
               = map (row_key (categories t)) (table_rows t)
           \<and> (inj_on (row_key (categories t)) (set (table_rows t)) \<longrightarrow> t' = t)"
proof -
  let ?rows = "\<lambda>es. concat (map (\<lambda>(name, csv). map (formatted_row pl dtype) csv)
                           (filter (\<lambda>(name, csv). re_match pattern name) es))"
  let ?key = "row_key (enum_of dtype)"
  let ?t = "\<lambda>es. \<lparr>dim_column = dim_of dtype, categories = enum_of dtype,
                    table_rows = sort_key ?key (?rows es)\<rparr>"
  have s: "set entries' = set entries"
    using assms(5) by (metis set_mset_mset)
  have r: "snd (collate pl fs dtype btype) = Inr (Inr (?t entries))"
    by (rule collate_parseable[OF assms(1-3) assms(6-8)])
  have r': "snd (collate pl fs' dtype btype) = Inr (Inr (?t entries'))"
    using assms(7,8) unfolding s[symmetric]
    by (intro collate_parseable[OF assms(1,2) assms(4) assms(6)])
  have "mset (filter (\<lambda>(name, csv). re_match pattern name) entries')
          = mset (filter (\<lambda>(name, csv). re_match pattern name) entries)"
    using assms(5) by simp
  then have m: "mset (?rows entries') = mset (?rows entries)"
    by (rule mset_concat_map_cong)
  have k: "map ?key (sort_key ?key (?rows entries')) = map ?key (sort_key ?key (?rows entries))"
    by (rule sort_key_perm_keys[OF m])
  have e: "sort_key ?key (?rows entries') = sort_key ?key (?rows entries)"
    if "inj_on ?key (set (sort_key ?key (?rows entries)))"
  proof -
    have "set (?rows entries') = set (?rows entries)"
      using m by (metis set_mset_mset)
    then have "inj_on ?key (set (?rows entries'))" using that by simp
    then show ?thesis by (rule sort_key_perm_inj[OF m])
  qed
  show ?thesis
    using r r' m k e
    by (intro exI[of _ "?t entries"] exI[of _ "?t entries'"]) simp
qed

text \<open>
  The theorem at two days of \<^verbatim>\<open>state_of_charge\<close> files listed in either order: the row
  keys of the first run are pairwise different, and the second run returns the same
  four-row table, in which \<^verbatim>\<open>ifm\<close> precedes \<^verbatim>\<open>rtd\<close> at each timestamp.
\<close>

theorem collate_order_independent_up_to_ties_witness:
  "snd (collate sample_polars (storage_only
          [(''20220101_Total State of Charge.csv'', [csv_line 1 ''RTD'' 5, csv_line 1 ''IFM'' 6]),
           (''20220102_Total State of Charge.csv'', [csv_line 2 ''RTD'' 7, csv_line 2 ''IFM'' 8])])
        ''state_of_charge'' ''storage'')
     = Inr (Inr \<lparr>dim_column = ''market'', categories = SOC_ENUM,
               table_rows = [\<lparr>mr_timestamp = 1, mr_dimension = ''ifm'', mr_volume = 6\<rparr>,
                             \<lparr>mr_timestamp = 1, mr_dimension = ''rtd'', mr_volume = 5\<rparr>,
                             \<lparr>mr_timestamp = 2, mr_dimension = ''ifm'', mr_volume = 8\<rparr>,
                             \<lparr>mr_timestamp = 2, mr_dimension = ''rtd'', mr_volume = 7\<rparr>]\<rparr>)
   \<and> snd (collate sample_polars (storage_only
          [(''20220102_Total State of Charge.csv'', [csv_line 2 ''RTD'' 7, csv_line 2 ''IFM'' 8]),
           (''20220101_Total State of Charge.csv'', [csv_line 1 ''RTD'' 5, csv_line 1 ''IFM'' 6])])
        ''state_of_charge'' ''storage'')
     = snd (collate sample_polars (storage_only
          [(''20220101_Total State of Charge.csv'', [csv_line 1 ''RTD'' 5, csv_line 1 ''IFM'' 6]),
           (''20220102_Total State of Charge.csv'', [csv_line 2 ''RTD'' 7, csv_line 2 ''IFM'' 8])])
        ''state_of_charge'' ''storage'')"
proof -
  let ?a = "(''20220101_Total State of Charge.csv'', [csv_line 1 ''RTD'' 5, csv_line 1 ''IFM'' 6])"
  let ?b = "(''20220102_Total State of Charge.csv'', [csv_line 2 ''RTD'' 7, csv_line 2 ''IFM'' 8])"
  let ?p = "date_prefixed ''_Total State of Charge.csv''"
  let ?T = "\<lparr>dim_column = ''market'', categories = SOC_ENUM,
               table_rows = [\<lparr>mr_timestamp = 1, mr_dimension = ''ifm'', mr_volume = 6\<rparr>,
                             \<lparr>mr_timestamp = 1, mr_dimension = ''rtd'', mr_volume = 5\<rparr>,
                             \<lparr>mr_timestamp = 2, mr_dimension = ''ifm'', mr_volume = 8\<rparr>,
                             \<lparr>mr_timestamp = 2, mr_dimension = ''rtd'', mr_volume = 7\<rparr>]\<rparr>"
  have p: "map_of FILE_PATTERNS ''state_of_charge'' = Some ?p"
    by (simp add: FILE_PATTERNS_def)
  have g: "getattr sample_polars (''format_'' @ ''state_of_charge'')
             = Some (format_state_of_charge sample_polars)"
    by (simp add: getattr_def)
  have b: "''storage'' = ''storage'' \<or> ''storage'' = ''hybrid''"
    by simp
  have d: "selected_dir (storage_only [?a, ?b]) ''storage'' = Some [?a, ?b]"
    by (simp add: selected_dir_def storage_only_def)
  have d': "selected_dir (storage_only [?b, ?a]) ''storage'' = Some [?b, ?a]"
    by (simp add: selected_dir_def storage_only_def)
  have perm: "mset [?b, ?a] = mset [?a, ?b]"
    by simp
  have ma: "re_match ?p (fst ?a)" and mb: "re_match ?p (fst ?b)"
    by (simp_all add: date_prefixed_def eval_nat_numeral)
  have fa: "format_state_of_charge sample_polars (snd ?a)
      = Inr \<lparr>dim_column = ''market'', categories = SOC_ENUM,
             table_rows = [\<lparr>mr_timestamp = 1, mr_dimension = ''rtd'', mr_volume = 5\<rparr>,
                           \<lparr>mr_timestamp = 1, mr_dimension = ''ifm'', mr_volume = 6\<rparr>]\<rparr>"
    by (simp add: format_state_of_charge_def format_frame_def cast_enum_def csv_line_def
        SOC_ENUM_def lower_self_schedule_def replace_value_def sample_lowercase)
  have fb: "format_state_of_charge sample_polars (snd ?b)
      = Inr \<lparr>dim_column = ''market'', categories = SOC_ENUM,
             table_rows = [\<lparr>mr_timestamp = 2, mr_dimension = ''rtd'', mr_volume = 7\<rparr>,
                           \<lparr>mr_timestamp = 2, mr_dimension = ''ifm'', mr_volume = 8\<rparr>]\<rparr>"
    by (simp add: format_state_of_charge_def format_frame_def cast_enum_def csv_line_def
        SOC_ENUM_def lower_self_schedule_def replace_value_def sample_lowercase)
  have ok: "\<forall>(name, csv) \<in> set [?a, ?b]. re_match ?p name
              \<longrightarrow> (\<exists>t. format_state_of_charge sample_polars csv = Inr t)"
    using fa fb by simp
  have some: "\<exists>(name, csv) \<in> set [?a, ?b]. re_match ?p name"
    using ma by simp
  have run: "snd (collate sample_polars (storage_only [?a, ?b]) ''state_of_charge'' ''storage'')
               = Inr (Inr ?T)"
    using p g ma mb fa fb
    by (simp add: collate_def storage_only_def concat_vertical_def sort_frame_def
        row_key_def enum_index_def SOC_ENUM_def)
  have inj: "inj_on (row_key (categories ?T)) (set (table_rows ?T))"
    by (simp add: row_key_def enum_index_def SOC_ENUM_def)
  from collate_order_independent_up_to_ties[OF p b d d' perm g ok some]
  obtain t t' where tt:
    "snd (collate sample_polars (storage_only [?a, ?b]) ''state_of_charge'' ''storage'') = Inr (Inr t)"
    "snd (collate sample_polars (storage_only [?b, ?a]) ''state_of_charge'' ''storage'') = Inr (Inr t')"
    "inj_on (row_key (categories t)) (set (table_rows t)) \<longrightarrow> t' = t"
    by blast
  have "t = ?T" using tt(1) run by simp
  then have "t' = t" using tt(3) inj by simp
  then show ?thesis using tt(1,2) run by simp
qed

text \<open>
  Claim C6 as stated fails when two files hold rows with the same timestamp and market
  and different volumes: the sort key ties, and the rows come out in the order the files
  were listed.
\<close>

theorem collate_order_dependent_counterexample:
  "snd (collate sample_polars (storage_only
          [(''20220101_Total Energy Awards.csv'', [csv_line 1 ''IFM'' 1]),
           (''20220102_Total Energy Awards.csv'', [csv_line 1 ''IFM'' 2])])
        ''energy_awards'' ''storage'')
     = Inr (Inr \<lparr>dim_column = ''market'', categories = ENERGY_ENUM,
               table_rows = [\<lparr>mr_timestamp = 1, mr_dimension = ''ifm'', mr_volume = 1\<rparr>,
                             \<lparr>mr_timestamp = 1, mr_dimension = ''ifm'', mr_volume = 2\<rparr>]\<rparr>)
   \<and> snd (collate sample_polars (storage_only
          [(''20220102_Total Energy Awards.csv'', [csv_line 1 ''IFM'' 2]),
           (''20220101_Total Energy Awards.csv'', [csv_line 1 ''IFM'' 1])])
        ''energy_awards'' ''storage'')
     = Inr (Inr \<lparr>dim_column = ''market'', categories = ENERGY_ENUM,
               table_rows = [\<lparr>mr_timestamp = 1, mr_dimension = ''ifm'', mr_volume = 2\<rparr>,
                             \<lparr>mr_timestamp = 1, mr_dimension = ''ifm'', mr_volume = 1\<rparr>]\<rparr>)"
proof -
  let ?p = "date_prefixed ''_Total Energy Awards.csv''"
  have p: "map_of FILE_PATTERNS ''energy_awards'' = Some ?p"
    by (simp add: FILE_PATTERNS_def)
  have g: "getattr sample_polars (''format_'' @ ''energy_awards'')
             = Some (format_energy_awards sample_polars)"
    by (simp add: getattr_def)
  have m: "re_match ?p ''20220101_Total Energy Awards.csv''"
    "re_match ?p ''20220102_Total Energy Awards.csv''"
    by (simp_all add: date_prefixed_def eval_nat_numeral)
  have f: "format_energy_awards sample_polars [csv_line 1 ''IFM'' v]
      = Inr \<lparr>dim_column = ''market'', categories = ENERGY_ENUM,
             table_rows = [\<lparr>mr_timestamp = 1, mr_dimension = ''ifm'', mr_volume = v\<rparr>]\<rparr>" for v
    by (simp add: format_energy_awards_def format_frame_def cast_enum_def csv_line_def
        ENERGY_ENUM_def lower_underscore_def sample_lowercase sample_underscore
        del: str_replace_whitespace.simps)
  show ?thesis
    using p g m f
    by (simp add: collate_def storage_only_def concat_vertical_def sort_frame_def
        row_key_def enum_index_def ENERGY_ENUM_def)
qed

end
